theory Spec2Isabelle
  imports Main "HOL-Library.AList" "HOL-Library.Sublist"
begin

section \<open>Python values\<close>

text \<open>
  The object model of \<^verbatim>\<open>bale\<close> is dynamically typed: a field of an entity holds a string,
  a number, \<^verbatim>\<open>None\<close>, the sentinel \<^verbatim>\<open>MissingValue\<close>, a list, a raw payload dictionary or
  another entity. One datatype of values covers them. A dictionary is an association
  list (lookup takes the first entry of a key, as \<open>map_of\<close> does); an object is its
  class and the association list of its attributes. Strings are lists of 8-bit
  characters, so the model covers descriptions and payloads of code points below 256.
\<close>

datatype cls =
  Chat | ChatMember | Message | Contact | Video
  | User | ChatPhoto | Document | Audio | Voice | Location | Animation
  | SuccessfulPayment | Sticker | Invoice | PhotoSize
  | Bot

datatype pyval =
  MissingValue
  | PyNone
  | PyBool bool
  | PyInt int
  | PyStr string
  | PyTuple "pyval list"
  | PyList "pyval list"
  | PyDict "(string \<times> pyval) list"
  | PyObj cls "(string \<times> pyval) list"

type_synonym pydict = "(string \<times> pyval) list"

datatype py_error = TypeError | KeyError | AttributeError

text \<open>Sequencing of calls that may raise: the first exception ends the computation.\<close>

definition bind_r :: "py_error + 'a \<Rightarrow> ('a \<Rightarrow> py_error + 'b) \<Rightarrow> py_error + 'b" where
  "bind_r m f = (case m of Inl e \<Rightarrow> Inl e | Inr x \<Rightarrow> f x)"

text \<open>
  Modelled from the spec: the missing-value sentinel (\<^verbatim>\<open>bale/utils/types.py\<close> is not part
  of the sources at hand). The spec fixes that it is a value of its own, distinct from
  \<^verbatim>\<open>None\<close>; it is the constructor \<open>MissingValue\<close> above. Its truth value is taken to be
  false, which is what the guards \<^verbatim>\<open>if not self.chat\<close> and \<^verbatim>\<open>if not attachment\<close> of
  \<^verbatim>\<open>_message.py\<close> rely on for fields left at their default.

  Python truth value testing for the other values: \<^verbatim>\<open>None\<close>, \<^verbatim>\<open>False\<close>, zero and empty
  containers are false; an object of a class without \<^verbatim>\<open>__bool__\<close> and \<^verbatim>\<open>__len__\<close> is true.
\<close>

fun truthy :: "pyval \<Rightarrow> bool" where
  "truthy MissingValue = False"
| "truthy PyNone = False"
| "truthy (PyBool b) = b"
| "truthy (PyInt n) = (n \<noteq> 0)"
| "truthy (PyStr s) = (s \<noteq> [])"
| "truthy (PyTuple xs) = (xs \<noteq> [])"
| "truthy (PyList xs) = (xs \<noteq> [])"
| "truthy (PyDict d) = (d \<noteq> [])"
| "truthy (PyObj c attrs) = True"

text \<open>\<^verbatim>\<open>a or b\<close> and \<^verbatim>\<open>a and b\<close> on already evaluated operands.\<close>

definition py_or :: "pyval \<Rightarrow> pyval \<Rightarrow> pyval" where
  "py_or a b = (if truthy a then a else b)"

section \<open>Dictionaries\<close>

text \<open>
  \<^verbatim>\<open>d.get(k)\<close>, \<^verbatim>\<open>d.get(k, default)\<close>, \<^verbatim>\<open>d[k] = v\<close>, \<^verbatim>\<open>d.pop(k, default)\<close> and \<^verbatim>\<open>d.pop(k)\<close>
  (which raises \<^verbatim>\<open>KeyError\<close> on a missing key). The mutating ones return the new dictionary.
\<close>

definition dict_get_default :: "pydict \<Rightarrow> string \<Rightarrow> pyval \<Rightarrow> pyval" where
  "dict_get_default d k dflt = (case map_of d k of None \<Rightarrow> dflt | Some v \<Rightarrow> v)"

definition dict_get :: "pydict \<Rightarrow> string \<Rightarrow> pyval" where
  "dict_get d k = dict_get_default d k PyNone"

definition dict_set :: "pydict \<Rightarrow> string \<Rightarrow> pyval \<Rightarrow> pydict" where
  "dict_set d k v = AList.update k v d"

definition dict_pop_default :: "pydict \<Rightarrow> string \<Rightarrow> pyval \<Rightarrow> pyval \<times> pydict" where
  "dict_pop_default d k dflt = (dict_get_default d k dflt, AList.delete k d)"

definition dict_pop :: "pydict \<Rightarrow> string \<Rightarrow> py_error + (pyval \<times> pydict)" where
  "dict_pop d k =
     (case map_of d k of None \<Rightarrow> Inl KeyError | Some v \<Rightarrow> Inr (v, AList.delete k d))"

text \<open>
  \<^verbatim>\<open>for x in v\<close>: a list or tuple yields its items, a dictionary its keys, a string its
  characters; anything else is not iterable.
\<close>

definition py_iter :: "pyval \<Rightarrow> py_error + pyval list" where
  "py_iter v =
     (case v of
        PyList xs \<Rightarrow> Inr xs
      | PyTuple xs \<Rightarrow> Inr xs
      | PyDict d \<Rightarrow> Inr (map (\<lambda>(k, _). PyStr k) d)
      | PyStr s \<Rightarrow> Inr (map (\<lambda>c. PyStr [c]) s)
      | _ \<Rightarrow> Inl TypeError)"

text \<open>A list comprehension \<^verbatim>\<open>[f(x) for x in xs]\<close> whose body may raise.\<close>

fun map_r :: "('a \<Rightarrow> py_error + 'b) \<Rightarrow> 'a list \<Rightarrow> py_error + 'b list" where
  "map_r f [] = Inr []"
| "map_r f (x # xs) = bind_r (f x) (\<lambda>y. bind_r (map_r f xs) (\<lambda>ys. Inr (y # ys)))"

section \<open>Strings\<close>

text \<open>
  \<^verbatim>\<open>str.lower()\<close> on code points below 256: the ASCII capitals and the Latin-1 capitals
  (0xC0 to 0xDE, without the multiplication sign 0xD7) move up by 32.
\<close>

definition lower_char :: "char \<Rightarrow> char" where
  "lower_char c =
     (let n = (of_char c :: nat)
      in if (65 \<le> n \<and> n \<le> 90) \<or> (192 \<le> n \<and> n \<le> 222 \<and> n \<noteq> 215)
         then char_of (n + 32) else c)"

definition lower :: "string \<Rightarrow> string" where
  "lower s = map lower_char s"

text \<open>
  The string methods used by \<^verbatim>\<open>_error.py\<close>, on dynamic values: called on something that
  is not a string they raise (\<^verbatim>\<open>None.lower()\<close> is an \<^verbatim>\<open>AttributeError\<close>).
  \<^verbatim>\<open>a in b\<close> for a string \<^verbatim>\<open>b\<close> is the contiguous-substring test; for a list or tuple it is
  membership of the string among the items, for a dictionary membership among the keys.
\<close>

definition py_lower :: "pyval \<Rightarrow> py_error + pyval" where
  "py_lower v = (case v of PyStr s \<Rightarrow> Inr (PyStr (lower s)) | _ \<Rightarrow> Inl AttributeError)"

definition py_startswith :: "pyval \<Rightarrow> string \<Rightarrow> py_error + pyval" where
  "py_startswith v p =
     (case v of PyStr s \<Rightarrow> Inr (PyBool (prefix p s)) | _ \<Rightarrow> Inl AttributeError)"

definition py_str_in :: "string \<Rightarrow> pyval \<Rightarrow> py_error + pyval" where
  "py_str_in a v =
     (case v of
        PyStr s \<Rightarrow> Inr (PyBool (sublist a s))
      | PyList xs \<Rightarrow> Inr (PyBool (PyStr a \<in> set xs))
      | PyTuple xs \<Rightarrow> Inr (PyBool (PyStr a \<in> set xs))
      | PyDict d \<Rightarrow> Inr (PyBool (a \<in> set (map fst d)))
      | _ \<Rightarrow> Inl TypeError)"

section \<open>Error taxonomy (\<^verbatim>\<open>bale/_error.py\<close>)\<close>

datatype error_kind =
  BaleError | InvalidToken | APIError | NetworkError | TimeOut
  | NotFound | Forbidden | BadRequest | RateLimited | HTTPException

definition USER_OR_CHAT_NOT_FOUND :: string where
  "USER_OR_CHAT_NOT_FOUND = ''no such group or user''"

definition TOKEN_NOT_FOUND :: string where
  "TOKEN_NOT_FOUND = ''Bad Request: Token not found''"

text \<open>
  \<^verbatim>\<open>check_description\<close> is a static method; the kinds that do not override it inherit
  \<^verbatim>\<open>BaleError.check_description\<close>, which returns \<^verbatim>\<open>False\<close>. The four overrides have the
  shape \<^verbatim>\<open>description and <test>\<close>: a falsy description is returned as it is, and only a
  truthy one reaches the string method.
\<close>

fun check_description :: "error_kind \<Rightarrow> pyval \<Rightarrow> py_error + pyval" where
  "check_description InvalidToken description =
     (if truthy description
      then bind_r (py_lower description) (py_str_in ''token not found'')
      else Inr description)"
| "check_description NotFound description =
     (if truthy description
      then py_str_in USER_OR_CHAT_NOT_FOUND description
      else Inr description)"
| "check_description Forbidden description =
     (if truthy description
      then py_startswith description ''Forbidden:''
      else Inr description)"
| "check_description BadRequest description =
     (if truthy description
      then py_startswith description ''Bad Request:''
      else Inr description)"
| "check_description k description = Inr (PyBool False)"

text \<open>
  Modelled from the spec: the classification of a server error description. The code
  that walks the error kinds lives in the request layer, which is not part of the
  sources at hand; the spec (section 4.4) gives it as: try each kind's
  \<^verbatim>\<open>check_description\<close> in the fixed priority order invalid-token, not-found, forbidden,
  bad-request and take the first kind whose predicate matches; if none matches, fall
  back to the generic kind (\<open>APIError\<close>, the error for an unknown status-400 response).
\<close>

definition classification_order :: "error_kind list" where
  "classification_order = [InvalidToken, NotFound, Forbidden, BadRequest]"

fun first_matching :: "error_kind list \<Rightarrow> pyval \<Rightarrow> py_error + error_kind" where
  "first_matching [] description = Inr APIError"
| "first_matching (k # ks) description =
     bind_r (check_description k description)
       (\<lambda>r. if truthy r then Inr k else first_matching ks description)"

definition classify :: "pyval \<Rightarrow> py_error + error_kind" where
  "classify description = first_matching classification_order description"

section \<open>The base object\<close>

text \<open>
  Modelled from the spec: \<^verbatim>\<open>BaleObject\<close>, the base class of every entity (its module is not
  part of the sources at hand). From the spec (sections 3 and 4.1): an instance has the
  identity field \<^verbatim>\<open>_id\<close>, empty at first; after the constructor body has run the instance
  is locked, and any later field write fails with an error; \<^verbatim>\<open>_id\<close> decides equality and
  hashing; \<^verbatim>\<open>parse_data\<close> produces null for an empty or absent payload and the mapping
  otherwise; \<^verbatim>\<open>from_dict\<close> returns null when the payload is empty and calls the
  constructor of the class with the parsed fields otherwise.

  The lock is the attribute \<^verbatim>\<open>_locked\<close> of the instance. A write to an attribute of
  something that is not an object, and a read of an attribute that is not there, raise
  \<^verbatim>\<open>AttributeError\<close>, as in Python.
\<close>

definition BaleObject_init :: "cls \<Rightarrow> pyval" where
  "BaleObject_init c = PyObj c [(''_id'', PyNone), (''_locked'', PyBool False)]"

definition is_locked :: "pyval \<Rightarrow> bool" where
  "is_locked obj =
     (case obj of PyObj c attrs \<Rightarrow> map_of attrs ''_locked'' = Some (PyBool True) | _ \<Rightarrow> False)"

definition py_setattr :: "pyval \<Rightarrow> string \<Rightarrow> pyval \<Rightarrow> py_error + pyval" where
  "py_setattr obj k v =
     (case obj of
        PyObj c attrs \<Rightarrow>
          if is_locked obj then Inl AttributeError else Inr (PyObj c (AList.update k v attrs))
      | _ \<Rightarrow> Inl AttributeError)"

definition py_getattr :: "pyval \<Rightarrow> string \<Rightarrow> py_error + pyval" where
  "py_getattr obj k =
     (case obj of
        PyObj c attrs \<Rightarrow> (case map_of attrs k of None \<Rightarrow> Inl AttributeError | Some v \<Rightarrow> Inr v)
      | _ \<Rightarrow> Inl AttributeError)"

definition py_lock :: "pyval \<Rightarrow> pyval" where
  "py_lock obj =
     (case obj of
        PyObj c attrs \<Rightarrow> PyObj c (AList.update ''_locked'' (PyBool True) attrs)
      | v \<Rightarrow> v)"

text \<open>
  Modelled from the spec: the reference to the owning client, \<^verbatim>\<open>bot\<close>. By the spec every
  entity holds it and the shortcut methods fail without it. No constructor under
  \<^verbatim>\<open>bale/\<close> takes the client as a parameter, while every \<^verbatim>\<open>from_dict\<close> receives it and hands
  it to \<^verbatim>\<open>super().from_dict(data, bot)\<close>, and the shortcut methods read it with
  \<^verbatim>\<open>self.get_bot()\<close>. So \<^verbatim>\<open>BaleObject.from_dict\<close> stores the reference in the instance that
  the constructor has returned, which is locked by then: the write does not go through
  the check of the lock. An instance built by its constructor alone has no client.
\<close>

definition set_bot :: "pyval \<Rightarrow> pyval \<Rightarrow> pyval" where
  "set_bot obj client =
     (case obj of
        PyObj c attrs \<Rightarrow> PyObj c (AList.update ''bot'' client attrs)
      | v \<Rightarrow> v)"

text \<open>The assignments \<^verbatim>\<open>self.k = v\<close> of a constructor body, in the order of the source.\<close>

fun setattrs :: "pyval \<Rightarrow> (string \<times> pyval) list \<Rightarrow> py_error + pyval" where
  "setattrs obj [] = Inr obj"
| "setattrs obj ((k, v) # kvs) = bind_r (py_setattr obj k v) (\<lambda>obj'. setattrs obj' kvs)"

text \<open>
  Modelled from the spec: \<^verbatim>\<open>BaleObject.parse_data\<close>. A payload that is neither empty nor a
  mapping has no normalized mapping; the model raises \<^verbatim>\<open>TypeError\<close> there.
\<close>

definition parse_data :: "pyval \<Rightarrow> py_error + pydict option" where
  "parse_data raw =
     (case raw of
        PyDict d \<Rightarrow> Inr (if d = [] then None else Some d)
      | v \<Rightarrow> if truthy v then Inl TypeError else Inr None)"

text \<open>
  Modelled from the spec: \<^verbatim>\<open>BaleObject.__eq__\<close> and \<^verbatim>\<open>BaleObject.__hash__\<close>. Both go through
  \<^verbatim>\<open>_id\<close>; \<open>h\<close> is Python's \<^verbatim>\<open>hash\<close> on identifier values.
\<close>

definition BaleObject_eq :: "pyval \<Rightarrow> pyval \<Rightarrow> py_error + bool" where
  "BaleObject_eq a b =
     bind_r (py_getattr a ''_id'') (\<lambda>i. bind_r (py_getattr b ''_id'') (\<lambda>j. Inr (i = j)))"

definition BaleObject_hash :: "(pyval \<Rightarrow> int) \<Rightarrow> pyval \<Rightarrow> py_error + int" where
  "BaleObject_hash h a = bind_r (py_getattr a ''_id'') (\<lambda>i. Inr (h i))"

section \<open>Constructors\<close>

text \<open>
  A constructor is called with keyword arguments (\<^verbatim>\<open>cls(**data)\<close>): a parameter without a
  default that is not among them is a \<^verbatim>\<open>TypeError\<close>, a parameter with the default
  \<^verbatim>\<open>MissingValue\<close> takes the default. Keys of the payload that name no parameter do
  not reach the constructor body.
\<close>

definition required :: "pydict \<Rightarrow> string \<Rightarrow> py_error + pyval" where
  "required kw k = (case map_of kw k of None \<Rightarrow> Inl TypeError | Some v \<Rightarrow> Inr v)"

definition optional :: "pydict \<Rightarrow> string \<Rightarrow> pyval" where
  "optional kw k = dict_get_default kw k MissingValue"

text \<open>\<^verbatim>\<open>Chat.__init__\<close> (\<^verbatim>\<open>bale/_chat.py\<close>).\<close>

definition Chat_init :: "pydict \<Rightarrow> py_error + pyval" where
  "Chat_init kw =
     bind_r (required kw ''chat_id'') (\<lambda>chat_id.
     bind_r (required kw ''chat_type'') (\<lambda>chat_type.
     bind_r (setattrs (BaleObject_init Chat)
       [(''_id'', chat_id),
        (''id'', chat_id),
        (''type'', chat_type),
        (''title'', optional kw ''title''),
        (''username'', optional kw ''username''),
        (''first_name'', optional kw ''first_name''),
        (''last_name'', optional kw ''last_name''),
        (''photo'', optional kw ''photo''),
        (''invite_link'', optional kw ''invite_link'')])
       (\<lambda>self. Inr (py_lock self))))"

text \<open>\<^verbatim>\<open>Contact.__init__\<close> (\<^verbatim>\<open>bale/attachments/_contact.py\<close>).\<close>

definition Contact_init :: "pydict \<Rightarrow> py_error + pyval" where
  "Contact_init kw =
     bind_r (required kw ''phone_number'') (\<lambda>phone_number.
     bind_r (required kw ''first_name'') (\<lambda>first_name.
     bind_r (setattrs (BaleObject_init Contact)
       [(''_id'', optional kw ''user_id''),
        (''phone_number'', phone_number),
        (''first_name'', first_name),
        (''last_name'', optional kw ''last_name''),
        (''user_id'', optional kw ''user_id'')])
       (\<lambda>self. Inr (py_lock self))))"

text \<open>
  \<^verbatim>\<open>Video.__init__\<close> (\<^verbatim>\<open>bale/attachments/_video.py\<close>). It starts with
  \<^verbatim>\<open>super().__init__(file_id, file_unique_id, file_size)\<close>.

  Modelled from the spec: \<^verbatim>\<open>BaseFile.__init__\<close> (its module is not part of the sources at
  hand); by the spec the file base holds \<^verbatim>\<open>file_id\<close>, \<^verbatim>\<open>file_unique_id\<close> and the optional
  \<^verbatim>\<open>file_size\<close>, which are the first three assignments below.
\<close>

definition Video_init :: "pydict \<Rightarrow> py_error + pyval" where
  "Video_init kw =
     bind_r (required kw ''file_id'') (\<lambda>file_id.
     bind_r (required kw ''file_unique_id'') (\<lambda>file_unique_id.
     bind_r (required kw ''width'') (\<lambda>width.
     bind_r (required kw ''height'') (\<lambda>height.
     bind_r (required kw ''duration'') (\<lambda>duration.
     bind_r (setattrs (BaleObject_init Video)
       [(''file_id'', file_id),
        (''file_unique_id'', file_unique_id),
        (''file_size'', optional kw ''file_size''),
        (''width'', width),
        (''height'', height),
        (''duration'', duration),
        (''file_name'', optional kw ''file_name''),
        (''mime_type'', optional kw ''mime_type'')])
       (\<lambda>self. Inr (py_lock self)))))))"

text \<open>
  \<^verbatim>\<open>ChatMember.__init__\<close> (\<^verbatim>\<open>bale/_chatmember.py\<close>). The identity is the pair
  \<^verbatim>\<open>(self.user.id, self.status)\<close>, read back from the instance after the assignments.
\<close>

definition OWNER :: string where "OWNER = ''creator''"
definition ADMIN :: string where "ADMIN = ''administrator''"
definition MEMBER :: string where "MEMBER = ''member''"

definition ChatMember_init :: "pydict \<Rightarrow> py_error + pyval" where
  "ChatMember_init kw =
     bind_r (required kw ''status'') (\<lambda>status.
     bind_r (required kw ''user'') (\<lambda>user.
     bind_r (setattrs (BaleObject_init ChatMember)
       [(''status'', status),
        (''user'', user),
        (''is_member'', optional kw ''is_member''),
        (''can_change_info'', optional kw ''can_change_info''),
        (''can_post_messages'', optional kw ''can_post_messages''),
        (''can_edit_messages'', optional kw ''can_edit_messages''),
        (''can_delete_messages'', optional kw ''can_delete_messages''),
        (''can_invite_users'', optional kw ''can_invite_users''),
        (''can_restrict_members'', optional kw ''can_restrict_members''),
        (''can_pin_messages'', optional kw ''can_pin_messages''),
        (''can_promote_members'', optional kw ''can_promote_members''),
        (''can_send_messages'', optional kw ''can_send_messages''),
        (''can_send_media_messages'', optional kw ''can_send_media_messages''),
        (''can_reply_to_story'', optional kw ''can_reply_to_story''),
        (''can_send_link_message'', optional kw ''can_send_link_message''),
        (''can_send_forwarded_message'', optional kw ''can_send_forwarded_message''),
        (''can_see_members'', optional kw ''can_see_members''),
        (''can_add_story'', optional kw ''can_add_story''),
        (''can_be_edited'', optional kw ''can_be_edited'')])
       (\<lambda>self.
     bind_r (py_getattr self ''user'') (\<lambda>u.
     bind_r (py_getattr u ''id'') (\<lambda>uid.
     bind_r (py_getattr self ''status'') (\<lambda>st.
     bind_r (py_setattr self ''_id'' (PyTuple [uid, st]))
       (\<lambda>self. Inr (py_lock self))))))))"

text \<open>\<^verbatim>\<open>Message.__init__\<close> (\<^verbatim>\<open>bale/_message.py\<close>), the assignments in the order of the source.\<close>

definition Message_init :: "pydict \<Rightarrow> py_error + pyval" where
  "Message_init kw =
     bind_r (required kw ''message_id'') (\<lambda>message_id.
     bind_r (required kw ''date'') (\<lambda>date.
     bind_r (setattrs (BaleObject_init Message)
       [(''_id'', message_id),
        (''message_id'', message_id),
        (''date'', date),
        (''text'', optional kw ''text''),
        (''chat'', optional kw ''chat''),
        (''reply_to_message'', optional kw ''reply_to_message''),
        (''from_user'', optional kw ''from_user''),
        (''forward_from'', optional kw ''forward_from''),
        (''forward_from_message_id'', optional kw ''forward_from_message_id''),
        (''forward_from_chat'', optional kw ''forward_from_chat''),
        (''edit_date'', optional kw ''edit_date''),
        (''caption'', optional kw ''caption''),
        (''document'', optional kw ''document''),
        (''video'', optional kw ''video''),
        (''animation'', optional kw ''animation''),
        (''audio'', optional kw ''audio''),
        (''voice'', optional kw ''voice''),
        (''photos'', optional kw ''photos''),
        (''contact'', optional kw ''contact''),
        (''location'', optional kw ''location''),
        (''sticker'', optional kw ''sticker''),
        (''new_chat_members'', optional kw ''new_chat_members''),
        (''left_chat_member'', optional kw ''left_chat_member''),
        (''invoice'', optional kw ''invoice''),
        (''successful_payment'', optional kw ''successful_payment'')])
       (\<lambda>self. Inr (py_lock self))))"

text \<open>
  Modelled from the spec: the constructors of the entity classes whose modules are not
  part of the sources at hand (\<^verbatim>\<open>User\<close>, \<^verbatim>\<open>ChatPhoto\<close>, \<^verbatim>\<open>Document\<close>, \<^verbatim>\<open>Audio\<close>, \<^verbatim>\<open>Voice\<close>,
  \<^verbatim>\<open>Location\<close>, \<^verbatim>\<open>Animation\<close>, \<^verbatim>\<open>SuccessfulPayment\<close>, \<^verbatim>\<open>Sticker\<close>, \<^verbatim>\<open>Invoice\<close>, \<^verbatim>\<open>PhotoSize\<close>).
  By the spec each is a typed record built from the parsed fields and locked; the
  model keeps every parsed field under its own name.
\<close>

definition Entity_init :: "cls \<Rightarrow> pydict \<Rightarrow> py_error + pyval" where
  "Entity_init c kw = bind_r (setattrs (BaleObject_init c) kw) (\<lambda>self. Inr (py_lock self))"

fun call_init :: "cls \<Rightarrow> pydict \<Rightarrow> py_error + pyval" where
  "call_init Chat kw = Chat_init kw"
| "call_init ChatMember kw = ChatMember_init kw"
| "call_init Message kw = Message_init kw"
| "call_init Contact kw = Contact_init kw"
| "call_init Video kw = Video_init kw"
| "call_init c kw = Entity_init c kw"

section \<open>Decoding payloads\<close>

text \<open>Modelled from the spec: \<^verbatim>\<open>BaleObject.from_dict\<close> (see the base object above).\<close>

definition BaleObject_from_dict :: "pyval \<Rightarrow> cls \<Rightarrow> pyval \<Rightarrow> py_error + pyval" where
  "BaleObject_from_dict client c data =
     bind_r (parse_data data) (\<lambda>data.
       case data of
         None \<Rightarrow> Inr PyNone
       | Some d \<Rightarrow> bind_r (call_init c d) (\<lambda>obj. Inr (set_bot obj client)))"

text \<open>
  A line \<^verbatim>\<open>data[k] = X.from_dict(data.get(k), bot)\<close>, with \<open>f\<close> the \<^verbatim>\<open>from_dict\<close> of \<^verbatim>\<open>X\<close>
  applied to the client reference \<open>client\<close> (the source's \<^verbatim>\<open>bot\<close>).
\<close>

definition parse_field :: "(pyval \<Rightarrow> py_error + pyval) \<Rightarrow> string \<Rightarrow> pydict \<Rightarrow> py_error + pydict" where
  "parse_field f k d = bind_r (f (dict_get d k)) (\<lambda>v. Inr (dict_set d k v))"

text \<open>\<^verbatim>\<open>Chat.from_dict\<close> (\<^verbatim>\<open>bale/_chat.py\<close>).\<close>

definition Chat_from_dict :: "pyval \<Rightarrow> pyval \<Rightarrow> py_error + pyval" where
  "Chat_from_dict client data =
     bind_r (parse_data data) (\<lambda>data.
       case data of
         None \<Rightarrow> Inr PyNone
       | Some d \<Rightarrow>
           if d = [] then Inr PyNone
           else
             bind_r (dict_pop d ''id'') (\<lambda>(v, d).
             bind_r (dict_pop (dict_set d ''chat_id'' v) ''type'') (\<lambda>(v, d).
             bind_r (parse_field (BaleObject_from_dict client ChatPhoto) ''photo''
                       (dict_set d ''chat_type'' v)) (\<lambda>d.
             BaleObject_from_dict client Chat (PyDict d)))))"

text \<open>\<^verbatim>\<open>ChatMember.from_dict\<close> (\<^verbatim>\<open>bale/_chatmember.py\<close>).\<close>

definition ChatMember_from_dict :: "pyval \<Rightarrow> pyval \<Rightarrow> py_error + pyval" where
  "ChatMember_from_dict client data =
     bind_r (parse_data data) (\<lambda>data.
       case data of
         None \<Rightarrow> Inr PyNone
       | Some d \<Rightarrow>
           if d = [] then Inr PyNone
           else
             bind_r (parse_field (BaleObject_from_dict client User) ''user'' d) (\<lambda>d.
             BaleObject_from_dict client ChatMember (PyDict d)))"

text \<open>
  \<^verbatim>\<open>Message.from_dict\<close> (\<^verbatim>\<open>bale/_message.py\<close>), in three parts: the lines before the one
  that decodes \<^verbatim>\<open>reply_to_message\<close> (197 to 201), that line (202), which calls
  \<^verbatim>\<open>Message.from_dict\<close> itself, and the lines after it (203 to 215). The helper
  \<^verbatim>\<open>parse_time\<close> is not part of the sources at hand and is the parameter \<open>pt\<close>.

  Modelled from the spec: \<^verbatim>\<open>parse_time\<close>, for the evaluation of concrete payloads. By the
  spec the date of a message is a timestamp; the model keeps the Unix time of the
  payload as the value of the date and gives \<^verbatim>\<open>None\<close> for anything else.
\<close>

definition parse_time :: "pyval \<Rightarrow> pyval" where
  "parse_time v = (case v of PyInt n \<Rightarrow> PyInt n | _ \<Rightarrow> PyNone)"

definition Message_fields_before_reply ::
  "pyval \<Rightarrow> (pyval \<Rightarrow> pyval) \<Rightarrow> pydict \<Rightarrow> py_error + pydict" where
  "Message_fields_before_reply client pt d =
     (let d = dict_set d ''date'' (pt (dict_get d ''date''));
          (v, d) = dict_pop_default d ''from'' PyNone
      in bind_r (BaleObject_from_dict client User v) (\<lambda>u.
         bind_r (parse_field (Chat_from_dict client) ''chat'' (dict_set d ''from_user'' u)) (\<lambda>d.
         bind_r (parse_field (BaleObject_from_dict client User) ''forward_from'' d) (\<lambda>d.
         parse_field (Chat_from_dict client) ''forward_from_chat'' d))))"

definition Message_fields_after_reply ::
  "pyval \<Rightarrow> (pyval \<Rightarrow> pyval) \<Rightarrow> pydict \<Rightarrow> py_error + pydict" where
  "Message_fields_after_reply client pt d =
     (let (v, d) = dict_pop_default d ''edit_date'' PyNone;
          d = dict_set d ''edit_date'' (pt v);
          (v, d) = dict_pop_default d ''photo'' (PyList [])
      in bind_r (py_iter v) (\<lambda>photo_payloads.
         bind_r (map_r (BaleObject_from_dict client PhotoSize) photo_payloads) (\<lambda>photos.
         bind_r (parse_field (BaleObject_from_dict client Document) ''document''
                   (dict_set d ''photos'' (PyList photos))) (\<lambda>d.
         bind_r (parse_field (BaleObject_from_dict client Audio) ''audio'' d) (\<lambda>d.
         bind_r (parse_field (BaleObject_from_dict client Voice) ''voice'' d) (\<lambda>d.
         bind_r (parse_field (BaleObject_from_dict client Location) ''location'' d) (\<lambda>d.
         bind_r (parse_field (BaleObject_from_dict client Contact) ''contact'' d) (\<lambda>d.
         bind_r (parse_field (BaleObject_from_dict client Animation) ''animation'' d) (\<lambda>d.
         bind_r (parse_field (BaleObject_from_dict client SuccessfulPayment) ''successful_payment'' d) (\<lambda>d.
         bind_r (parse_field (BaleObject_from_dict client Sticker) ''sticker'' d) (\<lambda>d.
         bind_r (parse_field (BaleObject_from_dict client Invoice) ''invoice'' d) (\<lambda>d.
         bind_r (py_iter (dict_get_default d ''new_chat_members'' (PyList []))) (\<lambda>member_payloads.
         bind_r (map_r (BaleObject_from_dict client User) member_payloads) (\<lambda>members.
         parse_field (BaleObject_from_dict client User) ''left_chat_member''
           (dict_set d ''new_chat_members'' (py_or (PyList members) PyNone))))))))))))))))"

text \<open>
  The recursion of \<^verbatim>\<open>Message.from_dict\<close> ends because the payload under
  \<^verbatim>\<open>reply_to_message\<close> is a part of the payload it is read from: the lines before do not
  write that key. The lemmas up to the termination proof say so.
\<close>

lemma bind_r_cong [fundef_cong]:
  "m = m' \<Longrightarrow> (\<And>x. m' = Inr x \<Longrightarrow> f x = f' x) \<Longrightarrow> bind_r m f = bind_r m' f'"
  by (auto simp: bind_r_def split: sum.splits)

lemma bind_r_Inr_iff: "bind_r m f = Inr y \<longleftrightarrow> (\<exists>x. m = Inr x \<and> f x = Inr y)"
  by (auto simp: bind_r_def split: sum.splits)

lemma size_map_of: "map_of d k = Some v \<Longrightarrow> size v < size (PyDict d)"
  by (induction d) (auto split: if_splits)

lemma parse_field_other:
  "parse_field f k d = Inr d' \<Longrightarrow> k' \<noteq> k \<Longrightarrow> map_of d' k' = map_of d k'"
  by (auto simp: parse_field_def bind_r_Inr_iff dict_set_def update_conv')

lemma before_reply_keeps:
  "Message_fields_before_reply client pt d = Inr d' \<Longrightarrow>
   map_of d' ''reply_to_message'' = map_of d ''reply_to_message''"
  by (auto simp: Message_fields_before_reply_def bind_r_Inr_iff dict_set_def dict_pop_default_def
      update_conv' delete_conv' Let_def dest!: parse_field_other[where k' = "''reply_to_message''"])

function Message_from_dict :: "pyval \<Rightarrow> (pyval \<Rightarrow> pyval) \<Rightarrow> pyval \<Rightarrow> py_error + pyval" where
  "Message_from_dict client pt data =
     bind_r (parse_data data) (\<lambda>data.
       case data of
         None \<Rightarrow> Inr PyNone
       | Some d \<Rightarrow>
           if d = [] then Inr PyNone
           else
             bind_r (Message_fields_before_reply client pt d) (\<lambda>d.
             bind_r (Message_from_dict client pt (dict_get d ''reply_to_message'')) (\<lambda>r.
             bind_r (Message_fields_after_reply client pt (dict_set d ''reply_to_message'' r)) (\<lambda>d.
             BaleObject_from_dict client Message (PyDict d)))))"
  by pat_completeness auto
termination
proof (relation "measure (\<lambda>(client, pt, data). size data)")
  show "wf (measure (\<lambda>(client, pt, data). size data))" by simp
next
  fix client :: pyval and pt :: "pyval \<Rightarrow> pyval" and data :: pyval and x y d d'
  assume "parse_data data = Inr x" "x = Some d" "d \<noteq> []"
    "Message_fields_before_reply client pt d = Inr d'"
  then have data: "data = PyDict d"
    and keep: "map_of d' ''reply_to_message'' = map_of d ''reply_to_message''"
    by (auto simp: parse_data_def before_reply_keeps split: pyval.splits if_splits)
  have "size (dict_get d' ''reply_to_message'') < size (PyDict d)"
  proof (cases "map_of d ''reply_to_message''")
    case None
    then show ?thesis by (simp add: dict_get_def dict_get_default_def keep)
  next
    case (Some v)
    from size_map_of [OF Some] show ?thesis
      by (simp add: dict_get_def dict_get_default_def keep Some)
  qed
  with data show "((client, pt, dict_get d' ''reply_to_message''), (client, pt, data))
      \<in> measure (\<lambda>(client, pt, data). size data)"
    by simp
qed

declare Message_from_dict.simps [simp del]





section \<open>Derived properties\<close>

text \<open>
  The properties \<^verbatim>\<open>attachment\<close>, \<^verbatim>\<open>content\<close>, \<^verbatim>\<open>chat_id\<close> and \<^verbatim>\<open>reply_to_message_id\<close> of
  \<^verbatim>\<open>Message\<close>. An \<^verbatim>\<open>or\<close> chain reads the next attribute only when the ones before are
  falsy, and its value is the first truthy operand, or the last operand.
\<close>

definition Message_attachment :: "pyval \<Rightarrow> py_error + pyval" where
  "Message_attachment self =
     bind_r
       (bind_r (py_getattr self ''video'') (\<lambda>v. if truthy v then Inr v else
        bind_r (py_getattr self ''photos'') (\<lambda>v. if truthy v then Inr v else
        bind_r (py_getattr self ''audio'') (\<lambda>v. if truthy v then Inr v else
        bind_r (py_getattr self ''animation'') (\<lambda>v. if truthy v then Inr v else
        bind_r (py_getattr self ''voice'') (\<lambda>v. if truthy v then Inr v else
        py_getattr self ''document''))))))
       (\<lambda>attachment. if \<not> truthy attachment then Inr PyNone else Inr attachment)"

definition Message_content :: "pyval \<Rightarrow> py_error + pyval" where
  "Message_content self =
     bind_r (py_getattr self ''caption'') (\<lambda>v. if truthy v then Inr v else
     py_getattr self ''text'')"

definition Message_chat_id :: "pyval \<Rightarrow> py_error + pyval" where
  "Message_chat_id self =
     bind_r (py_getattr self ''chat'') (\<lambda>chat.
       if \<not> truthy chat then Inr PyNone else py_getattr chat ''id'')"

definition Message_reply_to_message_id :: "pyval \<Rightarrow> py_error + pyval" where
  "Message_reply_to_message_id self =
     bind_r (py_getattr self ''reply_to_message'') (\<lambda>reply.
       if \<not> truthy reply then Inr PyNone else py_getattr reply ''message_id'')"

text \<open>
  The reading of \<^verbatim>\<open>attachment\<close> in the specification, for comparison with the property
  above: the first of the six attachment fields that is present, in the order video,
  photos, audio, animation, voice, document, and \<^verbatim>\<open>None\<close> when none is. A field is present
  when it holds an entity, a non-empty payload or a non-empty list; it is not when it
  holds the sentinel, \<^verbatim>\<open>None\<close> or an empty list. \<open>is_attachment_value\<close> says that a
  field holds one of these, which is what the annotations of \<^verbatim>\<open>Message.__init__\<close> admit
  (\<^verbatim>\<open>OptionalParam["Video"]\<close>, \<^verbatim>\<open>OptionalParam[List["PhotoSize"]]\<close>, and so on) and what
  \<^verbatim>\<open>from_dict\<close> produces.
\<close>

fun is_attachment_value :: "pyval \<Rightarrow> bool" where
  "is_attachment_value MissingValue = True"
| "is_attachment_value PyNone = True"
| "is_attachment_value (PyObj c attrs) = True"
| "is_attachment_value (PyList xs) = True"
| "is_attachment_value (PyDict d) = True"
| "is_attachment_value v = False"

definition present :: "pyval \<Rightarrow> bool" where
  "present v = (v \<noteq> MissingValue \<and> v \<noteq> PyNone \<and> v \<noteq> PyList [] \<and> v \<noteq> PyDict [])"

definition first_present :: "pyval list \<Rightarrow> pyval" where
  "first_present vs = (case find present vs of None \<Rightarrow> PyNone | Some v \<Rightarrow> v)"

definition attachment_fields :: "string list" where
  "attachment_fields = [''video'', ''photos'', ''audio'', ''animation'', ''voice'', ''document'']"

text \<open>
  \<^verbatim>\<open>ChatMember.is_owner\<close> and \<^verbatim>\<open>ChatMember.is_admin\<close>: \<^verbatim>\<open>status == OWNER\<close> and
  \<^verbatim>\<open>status in (OWNER, ADMIN)\<close>, comparisons of the status with string constants.
\<close>

definition ChatMember_is_owner :: "pyval \<Rightarrow> py_error + bool" where
  "ChatMember_is_owner self =
     bind_r (py_getattr self ''status'') (\<lambda>status. Inr (status = PyStr OWNER))"

definition ChatMember_is_admin :: "pyval \<Rightarrow> py_error + bool" where
  "ChatMember_is_admin self =
     bind_r (py_getattr self ''status'') (\<lambda>status.
       Inr (status = PyStr OWNER \<or> status = PyStr ADMIN))"

section \<open>Optional fields\<close>


definition Message_entity_fields :: "(string \<times> string) list" where
  "Message_entity_fields =
     [(''from'', ''from_user''), (''chat'', ''chat''), (''forward_from'', ''forward_from''),
      (''forward_from_chat'', ''forward_from_chat''), (''reply_to_message'', ''reply_to_message''),
      (''document'', ''document''), (''audio'', ''audio''), (''voice'', ''voice''),
      (''location'', ''location''), (''contact'', ''contact''), (''animation'', ''animation''),
      (''successful_payment'', ''successful_payment''), (''sticker'', ''sticker''),
      (''invoice'', ''invoice''), (''left_chat_member'', ''left_chat_member'')]"



section \<open>Basic facts\<close>

lemma bind_r_simps [simp]: "bind_r (Inr x) f = f x" "bind_r (Inl e) f = Inl e"
  by (simp_all add: bind_r_def)

lemma parse_data_dict: "d \<noteq> [] \<Longrightarrow> parse_data (PyDict d) = Inr (Some d)"
  by (simp add: parse_data_def)

lemma dict_set_nonempty: "dict_set d k v \<noteq> []"
  by (cases d) (auto simp: dict_set_def)

lemma map_of_dict_set: "map_of (dict_set d k v) = (map_of d)(k \<mapsto> v)"
  by (simp add: dict_set_def update_conv')

lemma BaleObject_from_dict_dict:
  "d \<noteq> [] \<Longrightarrow>
   BaleObject_from_dict client c (PyDict d) = bind_r (call_init c d) (\<lambda>obj. Inr (set_bot obj client))"
  by (simp add: BaleObject_from_dict_def parse_data_dict)

lemma parse_field_Inr:
  "parse_field f k d = Inr d' \<longleftrightarrow> (\<exists>v. f (dict_get d k) = Inr v \<and> d' = dict_set d k v)"
  by (auto simp: parse_field_def bind_r_Inr_iff)

section \<open>Classification of error descriptions\<close>

lemma lower_char_token_not_found: "c \<in> set ''token not found'' \<Longrightarrow> lower_char c = c"
  by (auto simp: lower_char_def)

lemma lower_token_not_found: "lower ''token not found'' = ''token not found''"
  unfolding lower_def by (rule map_idI) (rule lower_char_token_not_found)

lemma sublist_lower: "sublist ''token not found'' s \<Longrightarrow> sublist ''token not found'' (lower s)"
proof -
  assume "sublist ''token not found'' s"
  then have "sublist (lower ''token not found'') (lower s)"
    unfolding lower_def by (rule map_mono_sublist)
  then show ?thesis by (simp only: lower_token_not_found)
qed

lemma invalid_token_checked_first:
  assumes "sublist ''token not found'' (lower s)"
  shows "classify (PyStr s) = Inr InvalidToken"
proof -
  from assms have "s \<noteq> []" by (auto simp: lower_def)
  with assms show ?thesis
    by (simp add: classify_def classification_order_def py_lower_def py_str_in_def)
qed

text \<open>
  Claim C4. Trying the predicates in the priority order invalid-token, not-found,
  forbidden, bad-request, generic fallback classifies \<^verbatim>\<open>"Forbidden: bot was blocked"\<close> as
  forbidden and \<^verbatim>\<open>"Bad Request: invalid id"\<close> as bad-request, and every description that
  contains \<^verbatim>\<open>"token not found"\<close> as invalid-token, also one that starts with
  \<^verbatim>\<open>"Bad Request:"\<close>.
\<close>

theorem classify_examples:
  "classify (PyStr ''Forbidden: bot was blocked'') = Inr Forbidden
   \<and> classify (PyStr ''Bad Request: invalid id'') = Inr BadRequest
   \<and> (\<forall>s. sublist ''token not found'' s \<longrightarrow> classify (PyStr s) = Inr InvalidToken)"
proof (intro conjI allI impI)
  show "classify (PyStr ''Forbidden: bot was blocked'') = Inr Forbidden" by code_simp
  show "classify (PyStr ''Bad Request: invalid id'') = Inr BadRequest" by code_simp
next
  fix s assume "sublist ''token not found'' s"
  then show "classify (PyStr s) = Inr InvalidToken"
    by (intro invalid_token_checked_first sublist_lower)
qed

theorem classify_examples_witness:
  "sublist ''token not found'' ''Bad Request: token not found''
   \<and> check_description BadRequest (PyStr ''Bad Request: token not found'') = Inr (PyBool True)
   \<and> classify (PyStr ''Bad Request: token not found'') = Inr InvalidToken"
proof -
  have sub: "sublist ''token not found'' ''Bad Request: token not found''" by code_simp
  have bad: "check_description BadRequest (PyStr ''Bad Request: token not found'') = Inr (PyBool True)"
    by code_simp
  from classify_examples sub
  have "classify (PyStr ''Bad Request: token not found'') = Inr InvalidToken" by blast
  with sub bad show ?thesis by simp
qed

text \<open>The server's own wording, with a capital T, is caught by the \<^verbatim>\<open>lower()\<close>.\<close>

lemma token_not_found_constant: "classify (PyStr TOKEN_NOT_FOUND) = Inr InvalidToken"
  by code_simp

text \<open>
  Claim C10. On an absent description (\<^verbatim>\<open>None\<close>) the \<^verbatim>\<open>check_description\<close> of every error
  kind returns a falsy value and does not raise, and the classification falls through
  to the generic fallback.
\<close>

theorem check_description_none:
  "(\<exists>r. check_description k PyNone = Inr r \<and> \<not> truthy r) \<and> classify PyNone = Inr APIError"
  by (cases k) (simp_all add: classify_def classification_order_def)

section \<open>Constructed entities\<close>

text \<open>What each constructor returns, attribute by attribute.\<close>

lemma Chat_init_eq:
  "Chat_init kw =
     (case map_of kw ''chat_id'' of None \<Rightarrow> Inl TypeError | Some chat_id \<Rightarrow>
      case map_of kw ''chat_type'' of None \<Rightarrow> Inl TypeError | Some chat_type \<Rightarrow>
        Inr (PyObj Chat
          [(''_id'', chat_id), (''_locked'', PyBool True),
           (''id'', chat_id),
           (''type'', chat_type),
           (''title'', optional kw ''title''),
           (''username'', optional kw ''username''),
           (''first_name'', optional kw ''first_name''),
           (''last_name'', optional kw ''last_name''),
           (''photo'', optional kw ''photo''),
           (''invite_link'', optional kw ''invite_link'')]))"
  by (simp add: Chat_init_def required_def BaleObject_init_def py_setattr_def is_locked_def
      py_lock_def split: option.splits)

lemma Message_init_eq:
  "Message_init kw =
     (case map_of kw ''message_id'' of None \<Rightarrow> Inl TypeError | Some message_id \<Rightarrow>
      case map_of kw ''date'' of None \<Rightarrow> Inl TypeError | Some date \<Rightarrow>
        Inr (PyObj Message
       [(''_id'', message_id), (''_locked'', PyBool True),
        (''message_id'', message_id),
        (''date'', date),
        (''text'', optional kw ''text''),
        (''chat'', optional kw ''chat''),
        (''reply_to_message'', optional kw ''reply_to_message''),
        (''from_user'', optional kw ''from_user''),
        (''forward_from'', optional kw ''forward_from''),
        (''forward_from_message_id'', optional kw ''forward_from_message_id''),
        (''forward_from_chat'', optional kw ''forward_from_chat''),
        (''edit_date'', optional kw ''edit_date''),
        (''caption'', optional kw ''caption''),
        (''document'', optional kw ''document''),
        (''video'', optional kw ''video''),
        (''animation'', optional kw ''animation''),
        (''audio'', optional kw ''audio''),
        (''voice'', optional kw ''voice''),
        (''photos'', optional kw ''photos''),
        (''contact'', optional kw ''contact''),
        (''location'', optional kw ''location''),
        (''sticker'', optional kw ''sticker''),
        (''new_chat_members'', optional kw ''new_chat_members''),
        (''left_chat_member'', optional kw ''left_chat_member''),
        (''invoice'', optional kw ''invoice''),
        (''successful_payment'', optional kw ''successful_payment'')]))"
  by (simp add: Message_init_def required_def BaleObject_init_def py_setattr_def is_locked_def
      py_lock_def split: option.splits)

lemma ChatMember_init_eq:
  "ChatMember_init kw =
     (case map_of kw ''status'' of None \<Rightarrow> Inl TypeError | Some status \<Rightarrow>
      case map_of kw ''user'' of None \<Rightarrow> Inl TypeError | Some user \<Rightarrow>
      case py_getattr user ''id'' of Inl e \<Rightarrow> Inl e | Inr uid \<Rightarrow>
        Inr (PyObj ChatMember
          [(''_id'', PyTuple [uid, status]), (''_locked'', PyBool True),
           (''status'', status),
           (''user'', user),
           (''is_member'', optional kw ''is_member''),
           (''can_change_info'', optional kw ''can_change_info''),
           (''can_post_messages'', optional kw ''can_post_messages''),
           (''can_edit_messages'', optional kw ''can_edit_messages''),
           (''can_delete_messages'', optional kw ''can_delete_messages''),
           (''can_invite_users'', optional kw ''can_invite_users''),
           (''can_restrict_members'', optional kw ''can_restrict_members''),
           (''can_pin_messages'', optional kw ''can_pin_messages''),
           (''can_promote_members'', optional kw ''can_promote_members''),
           (''can_send_messages'', optional kw ''can_send_messages''),
           (''can_send_media_messages'', optional kw ''can_send_media_messages''),
           (''can_reply_to_story'', optional kw ''can_reply_to_story''),
           (''can_send_link_message'', optional kw ''can_send_link_message''),
           (''can_send_forwarded_message'', optional kw ''can_send_forwarded_message''),
           (''can_see_members'', optional kw ''can_see_members''),
           (''can_add_story'', optional kw ''can_add_story''),
           (''can_be_edited'', optional kw ''can_be_edited'')]))"
  by (simp add: ChatMember_init_def required_def BaleObject_init_def py_setattr_def is_locked_def
      py_lock_def py_getattr_def split: option.splits sum.splits)

text \<open>A constructor body starts from a fresh unlocked instance and ends with the lock.\<close>

lemma setattrs_obj: "setattrs (PyObj c a) kvs = Inr obj \<Longrightarrow> \<exists>a'. obj = PyObj c a'"
proof (induction kvs arbitrary: a)
  case Nil
  then show ?case by auto
next
  case (Cons kv kvs)
  obtain k v where kv: "kv = (k, v)" by (cases kv)
  from Cons.prems kv obtain o1 where o1: "py_setattr (PyObj c a) k v = Inr o1" "setattrs o1 kvs = Inr obj"
    by (auto simp: bind_r_Inr_iff)
  from o1(1) obtain a1 where "o1 = PyObj c a1"
    by (auto simp: py_setattr_def split: if_splits)
  with o1(2) Cons.IH show ?case by blast
qed

lemma locked_py_lock: "is_locked (py_lock (PyObj c a))"
  by (simp add: py_lock_def is_locked_def update_conv')

lemma py_lock_obj: "\<exists>a'. py_lock (PyObj c a) = PyObj c a'"
  by (simp add: py_lock_def)



lemma init_then_lock:
  "setattrs (BaleObject_init c) kvs = Inr self \<Longrightarrow>
   is_locked (py_lock self) \<and> (\<exists>a. py_lock self = PyObj c a)"
  unfolding BaleObject_init_def
  by (auto simp: locked_py_lock py_lock_obj dest!: setattrs_obj)

lemma Chat_init_locked:
  "Chat_init kw = Inr obj \<Longrightarrow> is_locked obj \<and> (\<exists>a. obj = PyObj Chat a)"
  unfolding Chat_init_def by (auto simp: bind_r_Inr_iff init_then_lock simp del: setattrs.simps)

lemma Message_init_locked:
  "Message_init kw = Inr obj \<Longrightarrow> is_locked obj \<and> (\<exists>a. obj = PyObj Message a)"
  unfolding Message_init_def by (auto simp: bind_r_Inr_iff init_then_lock simp del: setattrs.simps)






text \<open>Storing the client reference touches the attribute \<^verbatim>\<open>bot\<close> and nothing else.\<close>

lemma set_bot_obj: "set_bot (PyObj c a) client = PyObj c (AList.update ''bot'' client a)"
  by (simp add: set_bot_def)


lemma getattr_set_bot:
  "py_getattr (set_bot (PyObj c a) client) k =
     (if k = ''bot'' then Inr client else py_getattr (PyObj c a) k)"
  by (simp add: set_bot_def py_getattr_def update_conv')




text \<open>
  Claim C9. For a constructed chat member, \<^verbatim>\<open>is_owner\<close> holds exactly when the status is
  \<^verbatim>\<open>"creator"\<close>, \<^verbatim>\<open>is_admin\<close> exactly when it is \<^verbatim>\<open>"creator"\<close> or \<^verbatim>\<open>"administrator"\<close>, and an
  owner is an admin.
\<close>

theorem owner_is_admin:
  "ChatMember_init kw = Inr cm \<Longrightarrow>
     ChatMember_is_owner cm = Inr (dict_get kw ''status'' = PyStr ''creator'')
     \<and> ChatMember_is_admin cm =
         Inr (dict_get kw ''status'' = PyStr ''creator''
              \<or> dict_get kw ''status'' = PyStr ''administrator'')
     \<and> (ChatMember_is_owner cm = Inr True \<longrightarrow> ChatMember_is_admin cm = Inr True)"
  by (auto simp: ChatMember_init_eq ChatMember_is_owner_def ChatMember_is_admin_def py_getattr_def
      dict_get_def dict_get_default_def OWNER_def ADMIN_def split: option.splits sum.splits)

theorem owner_is_admin_witness:
  "\<exists>cm. ChatMember_init [(''status'', PyStr ''creator''), (''user'', PyObj User [(''id'', PyInt 7)])] = Inr cm
     \<and> ChatMember_is_owner cm = Inr True \<and> ChatMember_is_admin cm = Inr True"
proof -
  let ?kw = "[(''status'', PyStr ''creator''), (''user'', PyObj User [(''id'', PyInt 7)])]"
  obtain cm where cm: "ChatMember_init ?kw = Inr cm"
    by (simp add: ChatMember_init_eq py_getattr_def)
  from owner_is_admin [OF cm]
  have "ChatMember_is_owner cm = Inr True" and "ChatMember_is_owner cm = Inr True \<longrightarrow> ChatMember_is_admin cm = Inr True"
    by (simp_all add: dict_get_def dict_get_default_def)
  with cm show ?thesis by blast
qed

lemma Chat_from_dict_id:
  assumes c: "Chat_from_dict client (PyDict d) = Inr c" and d: "d \<noteq> []"
  shows "py_getattr c ''_id'' = Inr (dict_get d ''id'') \<and> map_of d ''id'' \<noteq> None"
proof -
  from c d obtain v t p c0 where v: "map_of d ''id'' = Some v"
    and init: "Chat_init (dict_set (dict_set (AList.delete ''type''
                 (dict_set (AList.delete ''id'' d) ''chat_id'' v)) ''chat_type'' t) ''photo'' p) = Inr c0"
    and c_eq: "c = set_bot c0 client"
    by (auto simp: Chat_from_dict_def parse_data_dict bind_r_Inr_iff dict_pop_def parse_field_Inr
        BaleObject_from_dict_dict dict_set_nonempty split: option.splits)
  from init have "py_getattr c0 ''_id'' = Inr v"
    by (auto simp: Chat_init_eq map_of_dict_set delete_conv' py_getattr_def split: option.splits)
  moreover from Chat_init_locked [OF init] obtain a where "c0 = PyObj Chat a"
    by blast
  ultimately have "py_getattr (set_bot c0 client) ''_id'' = Inr v"
    by (simp add: getattr_set_bot)
  with v c_eq show ?thesis by (simp add: dict_get_def dict_get_default_def)
qed

text \<open>
  Claim C8. Two chats decoded from payloads with the same \<^verbatim>\<open>id\<close> compare equal and have
  the same hash, whatever their other fields are.
\<close>

theorem chats_with_same_id_equal:
  assumes "Chat_from_dict client1 (PyDict d1) = Inr c1"
    and "Chat_from_dict client2 (PyDict d2) = Inr c2"
    and "d1 \<noteq> []" and "d2 \<noteq> []"
    and "dict_get d1 ''id'' = dict_get d2 ''id''"
  shows "BaleObject_eq c1 c2 = Inr True \<and> BaleObject_hash h c1 = BaleObject_hash h c2"
  using Chat_from_dict_id [OF assms(1,3)] Chat_from_dict_id [OF assms(2,4)] assms(5)
  by (simp add: BaleObject_eq_def BaleObject_hash_def)

theorem chats_with_same_id_equal_witness:
  "\<exists>c1 c2.
     Chat_from_dict (PyObj Bot [])
       (PyDict [(''id'', PyInt 5), (''type'', PyStr ''private''), (''first_name'', PyStr ''A'')]) = Inr c1
     \<and> Chat_from_dict (PyObj Bot [])
       (PyDict [(''id'', PyInt 5), (''type'', PyStr ''group''), (''title'', PyStr ''B'')]) = Inr c2
     \<and> c1 \<noteq> c2
     \<and> BaleObject_eq c1 c2 = Inr True
     \<and> (\<forall>h. BaleObject_hash h c1 = BaleObject_hash h c2)"
proof -
  let ?d1 = "[(''id'', PyInt 5), (''type'', PyStr ''private''), (''first_name'', PyStr ''A'')]"
  let ?d2 = "[(''id'', PyInt 5), (''type'', PyStr ''group''), (''title'', PyStr ''B'')]"
  obtain c1 where c1: "Chat_from_dict (PyObj Bot []) (PyDict ?d1) = Inr c1"
    and t1: "py_getattr c1 ''type'' = Inr (PyStr ''private'')"
    by (simp add: Chat_from_dict_def parse_data_def dict_pop_def dict_set_def parse_field_def
        dict_get_def dict_get_default_def BaleObject_from_dict_def Chat_init_eq py_getattr_def
        set_bot_def)
  obtain c2 where c2: "Chat_from_dict (PyObj Bot []) (PyDict ?d2) = Inr c2"
    and t2: "py_getattr c2 ''type'' = Inr (PyStr ''group'')"
    by (simp add: Chat_from_dict_def parse_data_def dict_pop_def dict_set_def parse_field_def
        dict_get_def dict_get_default_def BaleObject_from_dict_def Chat_init_eq py_getattr_def
        set_bot_def)
  have same: "dict_get ?d1 ''id'' = dict_get ?d2 ''id''"
    by (simp add: dict_get_def dict_get_default_def)
  from t1 t2 have "c1 \<noteq> c2" by auto
  moreover have "BaleObject_eq c1 c2 = Inr True \<and> BaleObject_hash h c1 = BaleObject_hash h c2" for h
    by (rule chats_with_same_id_equal [OF c1 c2 _ _ same]) simp_all
  ultimately show ?thesis using c1 c2 by blast
qed

section \<open>Derived properties of a message\<close>

lemma truthy_present: "is_attachment_value v \<Longrightarrow> truthy v = present v"
  by (cases v) (auto simp: present_def)

lemma Message_init_obj:
  "Message_init kw = Inr m \<Longrightarrow> \<exists>a. m = PyObj Message a"
  by (auto dest: Message_init_locked)

text \<open>
  The \<^verbatim>\<open>or\<close> chain of \<^verbatim>\<open>attachment\<close>, on the values the constructor was given. The client
  reference stored by \<^verbatim>\<open>from_dict\<close> makes no difference.
\<close>

lemma Message_attachment_init:
  assumes "Message_init kw = Inr m"
  shows "Message_attachment m =
     Inr (let a = py_or (optional kw ''video'') (py_or (optional kw ''photos'')
                 (py_or (optional kw ''audio'') (py_or (optional kw ''animation'')
                 (py_or (optional kw ''voice'') (optional kw ''document'')))))
          in if truthy a then a else PyNone)"
  using assms
  by (auto simp: Message_init_eq Message_attachment_def py_getattr_def py_or_def Let_def
      split: option.splits)

lemma Message_attachment_set_bot:
  assumes "Message_init kw = Inr m"
  shows "Message_attachment (set_bot m client) = Message_attachment m"
proof -
  from Message_init_obj [OF assms] obtain a where "m = PyObj Message a" by blast
  then show ?thesis
    by (simp add: Message_attachment_def getattr_set_bot cong: if_cong)
qed

text \<open>
  Claim C5. For every constructed message whose attachment fields hold what their
  annotations admit, \<^verbatim>\<open>attachment\<close> is the first present one of video, photos, audio,
  animation, voice, document, in that order, and \<^verbatim>\<open>None\<close> when none is present; the same
  holds once \<^verbatim>\<open>from_dict\<close> has stored the client in the message.
\<close>

theorem attachment_first_present:
  assumes "Message_init kw = Inr m"
    and "\<forall>k \<in> set attachment_fields. is_attachment_value (optional kw k)"
  shows "Message_attachment m = Inr (first_present (map (optional kw) attachment_fields))
     \<and> (\<forall>client. Message_attachment (set_bot m client)
           = Inr (first_present (map (optional kw) attachment_fields)))"
  using assms(2)
  by (simp add: Message_attachment_set_bot [OF assms(1)] Message_attachment_init [OF assms(1)]
      first_present_def attachment_fields_def py_or_def Let_def truthy_present)

theorem attachment_first_present_witness:
  "\<exists>m. Message_init
          [(''message_id'', PyInt 1), (''date'', PyInt 0),
           (''photos'', PyList [PyObj PhotoSize []]), (''document'', PyObj Document [])] = Inr m
      \<and> Message_attachment m = Inr (PyList [PyObj PhotoSize []])"
proof -
  let ?kw = "[(''message_id'', PyInt 1), (''date'', PyInt 0),
           (''photos'', PyList [PyObj PhotoSize []]), (''document'', PyObj Document [])]"
  obtain m where m: "Message_init ?kw = Inr m"
    by (simp add: Message_init_eq)
  have "Message_attachment m = Inr (first_present (map (optional ?kw) attachment_fields))"
    using attachment_first_present [OF m]
    by (simp add: optional_def dict_get_default_def attachment_fields_def)
  then have "Message_attachment m = Inr (PyList [PyObj PhotoSize []])"
    by (simp add: first_present_def present_def optional_def dict_get_default_def
        attachment_fields_def)
  with m show ?thesis by blast
qed

text \<open>No attachment at all: the fields are left at the sentinel and the result is \<^verbatim>\<open>None\<close>.\<close>

lemma attachment_of_bare_message:
  "\<exists>m. Message_init [(''message_id'', PyInt 1), (''date'', PyInt 0)] = Inr m
      \<and> Message_attachment m = Inr PyNone"
proof -
  obtain m where m: "Message_init [(''message_id'', PyInt 1), (''date'', PyInt 0)] = Inr m"
    by (simp add: Message_init_eq)
  from Message_attachment_init [OF m] have "Message_attachment m = Inr PyNone"
    by (simp add: py_or_def optional_def dict_get_default_def)
  with m show ?thesis by blast
qed

text \<open>\<^verbatim>\<open>content\<close> is \<^verbatim>\<open>caption or text\<close> on the values the constructor was given.\<close>

lemma Message_content_init:
  assumes "Message_init kw = Inr m"
  shows "Message_content m = Inr (py_or (optional kw ''caption'') (optional kw ''text''))"
  using assms
  by (auto simp: Message_init_eq Message_content_def py_getattr_def py_or_def
      split: option.splits)

lemma content_caption_first:
  assumes "Message_init kw = Inr m" and "truthy (optional kw ''caption'')"
  shows "Message_content m = Inr (optional kw ''caption'')"
  using assms(2) by (simp add: Message_content_init [OF assms(1)] py_or_def)

lemma content_text_only:
  assumes "Message_init kw = Inr m" and "\<not> truthy (optional kw ''caption'')"
  shows "Message_content m = Inr (optional kw ''text'')"
  using assms(2) by (simp add: Message_content_init [OF assms(1)] py_or_def)

text \<open>
  Claim C6. The claim says that \<^verbatim>\<open>content\<close> is \<^verbatim>\<open>None\<close> when the message has neither a
  caption nor a text. A message constructed with neither has both fields at their
  default, the sentinel, and \<^verbatim>\<open>caption or text\<close> then is the sentinel, not \<^verbatim>\<open>None\<close>.
\<close>

theorem content_without_text_is_sentinel:
  "\<exists>m. Message_init [(''message_id'', PyInt 1), (''date'', PyInt 0)] = Inr m
      \<and> py_getattr m ''caption'' = Inr MissingValue
      \<and> py_getattr m ''text'' = Inr MissingValue
      \<and> Message_content m = Inr MissingValue
      \<and> Message_content m \<noteq> Inr PyNone"
proof -
  obtain m where m: "Message_init [(''message_id'', PyInt 1), (''date'', PyInt 0)] = Inr m"
    by (simp add: Message_init_eq)
  from Message_content_init [OF m] have c: "Message_content m = Inr MissingValue"
    by (simp add: py_or_def optional_def dict_get_default_def)
  from m have "py_getattr m ''caption'' = Inr MissingValue" "py_getattr m ''text'' = Inr MissingValue"
    by (auto simp: Message_init_eq py_getattr_def optional_def dict_get_default_def)
  with m c show ?thesis by auto
qed

section \<open>Decoding a message\<close>

subsection \<open>Dictionary lookups through the updates\<close>

lemma dict_get_dict_set: "dict_get (dict_set d k v) k' = (if k' = k then v else dict_get d k')"
  by (simp add: dict_get_def dict_get_default_def map_of_dict_set)

lemma dict_get_delete: "dict_get (AList.delete k d) k' = (if k' = k then PyNone else dict_get d k')"
  by (simp add: dict_get_def dict_get_default_def delete_conv')

lemma dict_get_default_dict_set:
  "dict_get_default (dict_set d k v) k' x = (if k' = k then v else dict_get_default d k' x)"
  by (simp add: dict_get_default_def map_of_dict_set)

lemma dict_get_default_delete:
  "dict_get_default (AList.delete k d) k' x = (if k' = k then x else dict_get_default d k' x)"
  by (simp add: dict_get_default_def delete_conv')

lemma optional_dict_set: "optional (dict_set d k v) k' = (if k' = k then v else optional d k')"
  by (simp add: optional_def dict_get_default_dict_set)

lemma optional_delete:
  "optional (AList.delete k d) k' = (if k' = k then MissingValue else optional d k')"
  by (simp add: optional_def dict_get_default_delete)

lemmas dict_lookup_simps =
  dict_get_dict_set dict_get_delete dict_get_default_dict_set dict_get_default_delete
  optional_dict_set optional_delete map_of_dict_set delete_conv'

subsection \<open>Decoding nothing\<close>

lemma BaleObject_from_dict_None [simp]: "BaleObject_from_dict client c PyNone = Inr PyNone"
  by (simp add: BaleObject_from_dict_def parse_data_def)

lemma Chat_from_dict_None [simp]: "Chat_from_dict client PyNone = Inr PyNone"
  by (simp add: Chat_from_dict_def parse_data_def)

lemma Message_from_dict_None [simp]: "Message_from_dict client pt PyNone = Inr PyNone"
  by (subst Message_from_dict.simps) (simp add: parse_data_def)

lemma Message_from_dict_dict:
  "d \<noteq> [] \<Longrightarrow> Message_from_dict client pt (PyDict d) =
     bind_r (Message_fields_before_reply client pt d) (\<lambda>d.
     bind_r (Message_from_dict client pt (dict_get d ''reply_to_message'')) (\<lambda>r.
     bind_r (Message_fields_after_reply client pt (dict_set d ''reply_to_message'' r)) (\<lambda>d.
     bind_r (Message_init d) (\<lambda>obj. Inr (set_bot obj client)))))"
  by (subst Message_from_dict.simps)
     (auto simp: parse_data_dict BaleObject_from_dict_dict bind_r_Inr_iff
       Message_fields_after_reply_def parse_field_Inr dict_set_nonempty Let_def
       split: prod.splits intro!: bind_r_cong)

subsection \<open>The two halves of Message.from_dict\<close>

lemma before_reply_Inr:
  assumes "Message_fields_before_reply client pt d = Inr d'"
  shows "\<exists>u c ff fc.
     BaleObject_from_dict client User (dict_get d ''from'') = Inr u
     \<and> Chat_from_dict client (dict_get d ''chat'') = Inr c
     \<and> BaleObject_from_dict client User (dict_get d ''forward_from'') = Inr ff
     \<and> Chat_from_dict client (dict_get d ''forward_from_chat'') = Inr fc
     \<and> d' = dict_set (dict_set (dict_set (dict_set
              (AList.delete ''from'' (dict_set d ''date'' (pt (dict_get d ''date''))))
              ''from_user'' u) ''chat'' c) ''forward_from'' ff) ''forward_from_chat'' fc"
  using assms
  by (auto simp: Message_fields_before_reply_def dict_pop_default_def Let_def bind_r_Inr_iff
      parse_field_Inr dict_lookup_simps dict_get_def [symmetric])

lemma after_reply_Inr:
  assumes "Message_fields_after_reply client pt d = Inr d'"
  shows "\<exists>pps ps doc au vo loc con an sp st inv mps ms lcm.
     py_iter (dict_get_default d ''photo'' (PyList [])) = Inr pps
     \<and> map_r (BaleObject_from_dict client PhotoSize) pps = Inr ps
     \<and> BaleObject_from_dict client Document (dict_get d ''document'') = Inr doc
     \<and> BaleObject_from_dict client Audio (dict_get d ''audio'') = Inr au
     \<and> BaleObject_from_dict client Voice (dict_get d ''voice'') = Inr vo
     \<and> BaleObject_from_dict client Location (dict_get d ''location'') = Inr loc
     \<and> BaleObject_from_dict client Contact (dict_get d ''contact'') = Inr con
     \<and> BaleObject_from_dict client Animation (dict_get d ''animation'') = Inr an
     \<and> BaleObject_from_dict client SuccessfulPayment (dict_get d ''successful_payment'') = Inr sp
     \<and> BaleObject_from_dict client Sticker (dict_get d ''sticker'') = Inr st
     \<and> BaleObject_from_dict client Invoice (dict_get d ''invoice'') = Inr inv
     \<and> py_iter (dict_get_default d ''new_chat_members'' (PyList [])) = Inr mps
     \<and> map_r (BaleObject_from_dict client User) mps = Inr ms
     \<and> BaleObject_from_dict client User (dict_get d ''left_chat_member'') = Inr lcm
     \<and> d' = dict_set (dict_set (dict_set (dict_set (dict_set (dict_set (dict_set (dict_set
              (dict_set (dict_set (dict_set (dict_set
              (AList.delete ''photo''
                (dict_set (AList.delete ''edit_date'' d) ''edit_date'' (pt (dict_get d ''edit_date''))))
              ''photos'' (PyList ps)) ''document'' doc) ''audio'' au) ''voice'' vo)
              ''location'' loc) ''contact'' con) ''animation'' an) ''successful_payment'' sp)
              ''sticker'' st) ''invoice'' inv)
              ''new_chat_members'' (py_or (PyList ms) PyNone)) ''left_chat_member'' lcm"
  using assms
  by (auto simp: Message_fields_after_reply_def dict_pop_default_def Let_def bind_r_Inr_iff
      parse_field_Inr dict_lookup_simps dict_get_def [symmetric])

lemma Message_from_dict_fields:
  assumes m: "Message_from_dict client pt (PyDict d) = Inr m" and d: "d \<noteq> []"
  shows "\<exists>mid u c ff fc r pps ps doc au vo loc con an sp st inv mps ms lcm.
     map_of d ''message_id'' = Some mid
     \<and> BaleObject_from_dict client User (dict_get d ''from'') = Inr u
     \<and> Chat_from_dict client (dict_get d ''chat'') = Inr c
     \<and> BaleObject_from_dict client User (dict_get d ''forward_from'') = Inr ff
     \<and> Chat_from_dict client (dict_get d ''forward_from_chat'') = Inr fc
     \<and> Message_from_dict client pt (dict_get d ''reply_to_message'') = Inr r
     \<and> py_iter (dict_get_default d ''photo'' (PyList [])) = Inr pps
     \<and> map_r (BaleObject_from_dict client PhotoSize) pps = Inr ps
     \<and> BaleObject_from_dict client Document (dict_get d ''document'') = Inr doc
     \<and> BaleObject_from_dict client Audio (dict_get d ''audio'') = Inr au
     \<and> BaleObject_from_dict client Voice (dict_get d ''voice'') = Inr vo
     \<and> BaleObject_from_dict client Location (dict_get d ''location'') = Inr loc
     \<and> BaleObject_from_dict client Contact (dict_get d ''contact'') = Inr con
     \<and> BaleObject_from_dict client Animation (dict_get d ''animation'') = Inr an
     \<and> BaleObject_from_dict client SuccessfulPayment (dict_get d ''successful_payment'') = Inr sp
     \<and> BaleObject_from_dict client Sticker (dict_get d ''sticker'') = Inr st
     \<and> BaleObject_from_dict client Invoice (dict_get d ''invoice'') = Inr inv
     \<and> py_iter (dict_get_default d ''new_chat_members'' (PyList [])) = Inr mps
     \<and> map_r (BaleObject_from_dict client User) mps = Inr ms
     \<and> BaleObject_from_dict client User (dict_get d ''left_chat_member'') = Inr lcm
     \<and> m = PyObj Message
          [(''_id'', mid), (''_locked'', PyBool True),
           (''message_id'', mid),
           (''date'', pt (dict_get d ''date'')),
           (''text'', optional d ''text''),
           (''chat'', c),
           (''reply_to_message'', r),
           (''from_user'', u),
           (''forward_from'', ff),
           (''forward_from_message_id'', optional d ''forward_from_message_id''),
           (''forward_from_chat'', fc),
           (''edit_date'', pt (dict_get d ''edit_date'')),
           (''caption'', optional d ''caption''),
           (''document'', doc),
           (''video'', optional d ''video''),
           (''animation'', an),
           (''audio'', au),
           (''voice'', vo),
           (''photos'', PyList ps),
           (''contact'', con),
           (''location'', loc),
           (''sticker'', st),
           (''new_chat_members'', py_or (PyList ms) PyNone),
           (''left_chat_member'', lcm),
           (''invoice'', inv),
           (''successful_payment'', sp),
           (''bot'', client)]"
proof -
  from m d obtain d1 r d2 m0 where d1: "Message_fields_before_reply client pt d = Inr d1"
    and r: "Message_from_dict client pt (dict_get d1 ''reply_to_message'') = Inr r"
    and d2: "Message_fields_after_reply client pt (dict_set d1 ''reply_to_message'' r) = Inr d2"
    and init0: "Message_init d2 = Inr m0" and m_bot: "m = set_bot m0 client"
    by (auto simp: Message_from_dict_dict bind_r_Inr_iff)
  from before_reply_Inr [OF d1] obtain u c ff fc where
    b: "BaleObject_from_dict client User (dict_get d ''from'') = Inr u"
       "Chat_from_dict client (dict_get d ''chat'') = Inr c"
       "BaleObject_from_dict client User (dict_get d ''forward_from'') = Inr ff"
       "Chat_from_dict client (dict_get d ''forward_from_chat'') = Inr fc"
    and d1_eq: "d1 = dict_set (dict_set (dict_set (dict_set
              (AList.delete ''from'' (dict_set d ''date'' (pt (dict_get d ''date''))))
              ''from_user'' u) ''chat'' c) ''forward_from'' ff) ''forward_from_chat'' fc"
    by blast
  define e where "e = dict_set d1 ''reply_to_message'' r"
  from after_reply_Inr [OF d2] obtain pps ps doc au vo loc con an sp st inv mps ms lcm where
    a: "py_iter (dict_get_default e ''photo'' (PyList [])) = Inr pps"
       "map_r (BaleObject_from_dict client PhotoSize) pps = Inr ps"
       "BaleObject_from_dict client Document (dict_get e ''document'') = Inr doc"
       "BaleObject_from_dict client Audio (dict_get e ''audio'') = Inr au"
       "BaleObject_from_dict client Voice (dict_get e ''voice'') = Inr vo"
       "BaleObject_from_dict client Location (dict_get e ''location'') = Inr loc"
       "BaleObject_from_dict client Contact (dict_get e ''contact'') = Inr con"
       "BaleObject_from_dict client Animation (dict_get e ''animation'') = Inr an"
       "BaleObject_from_dict client SuccessfulPayment (dict_get e ''successful_payment'') = Inr sp"
       "BaleObject_from_dict client Sticker (dict_get e ''sticker'') = Inr st"
       "BaleObject_from_dict client Invoice (dict_get e ''invoice'') = Inr inv"
       "py_iter (dict_get_default e ''new_chat_members'' (PyList [])) = Inr mps"
       "map_r (BaleObject_from_dict client User) mps = Inr ms"
       "BaleObject_from_dict client User (dict_get e ''left_chat_member'') = Inr lcm"
    and d2_eq: "d2 = dict_set (dict_set (dict_set (dict_set (dict_set (dict_set (dict_set (dict_set
              (dict_set (dict_set (dict_set (dict_set
              (AList.delete ''photo''
                (dict_set (AList.delete ''edit_date'' e) ''edit_date'' (pt (dict_get e ''edit_date''))))
              ''photos'' (PyList ps)) ''document'' doc) ''audio'' au) ''voice'' vo)
              ''location'' loc) ''contact'' con) ''animation'' an) ''successful_payment'' sp)
              ''sticker'' st) ''invoice'' inv)
              ''new_chat_members'' (py_or (PyList ms) PyNone)) ''left_chat_member'' lcm"
    unfolding e_def by blast
  have e_get: "dict_get e k = dict_get d k" "dict_get_default e k x = dict_get_default d k x"
    "optional e k = optional d k" "map_of e k = map_of d k"
    if "k \<notin> {''date'', ''from'', ''from_user'', ''chat'', ''forward_from'', ''forward_from_chat'',
                ''reply_to_message''}" for k x
    using that by (simp_all add: e_def d1_eq dict_lookup_simps)
  have e_date: "map_of e ''date'' = Some (pt (dict_get d ''date''))"
    by (simp add: e_def d1_eq dict_lookup_simps)
  have e_vals: "optional e ''chat'' = c" "optional e ''reply_to_message'' = r"
    "optional e ''from_user'' = u" "optional e ''forward_from'' = ff"
    "optional e ''forward_from_chat'' = fc"
    by (simp_all add: e_def d1_eq dict_lookup_simps)
  from r have r': "Message_from_dict client pt (dict_get d ''reply_to_message'') = Inr r"
    by (simp add: d1_eq dict_lookup_simps)
  from init0 obtain mid where mid: "map_of d ''message_id'' = Some mid"
    by (auto simp: Message_init_eq d2_eq dict_lookup_simps e_get split: option.splits)
  from init0 mid have m_eq: "m0 = PyObj Message
          [(''_id'', mid), (''_locked'', PyBool True),
           (''message_id'', mid),
           (''date'', pt (dict_get d ''date'')),
           (''text'', optional d ''text''),
           (''chat'', c),
           (''reply_to_message'', r),
           (''from_user'', u),
           (''forward_from'', ff),
           (''forward_from_message_id'', optional d ''forward_from_message_id''),
           (''forward_from_chat'', fc),
           (''edit_date'', pt (dict_get d ''edit_date'')),
           (''caption'', optional d ''caption''),
           (''document'', doc),
           (''video'', optional d ''video''),
           (''animation'', an),
           (''audio'', au),
           (''voice'', vo),
           (''photos'', PyList ps),
           (''contact'', con),
           (''location'', loc),
           (''sticker'', st),
           (''new_chat_members'', py_or (PyList ms) PyNone),
           (''left_chat_member'', lcm),
           (''invoice'', inv),
           (''successful_payment'', sp)]"
    by (simp add: Message_init_eq d2_eq dict_lookup_simps e_get e_date e_vals)
  from a have a': "py_iter (dict_get_default d ''photo'' (PyList [])) = Inr pps"
       "BaleObject_from_dict client Document (dict_get d ''document'') = Inr doc"
       "BaleObject_from_dict client Audio (dict_get d ''audio'') = Inr au"
       "BaleObject_from_dict client Voice (dict_get d ''voice'') = Inr vo"
       "BaleObject_from_dict client Location (dict_get d ''location'') = Inr loc"
       "BaleObject_from_dict client Contact (dict_get d ''contact'') = Inr con"
       "BaleObject_from_dict client Animation (dict_get d ''animation'') = Inr an"
       "BaleObject_from_dict client SuccessfulPayment (dict_get d ''successful_payment'') = Inr sp"
       "BaleObject_from_dict client Sticker (dict_get d ''sticker'') = Inr st"
       "BaleObject_from_dict client Invoice (dict_get d ''invoice'') = Inr inv"
       "py_iter (dict_get_default d ''new_chat_members'' (PyList [])) = Inr mps"
       "BaleObject_from_dict client User (dict_get d ''left_chat_member'') = Inr lcm"
    by (simp_all add: e_get)
  from m_eq m_bot have m_eq': "m = PyObj Message
          [(''_id'', mid), (''_locked'', PyBool True),
           (''message_id'', mid),
           (''date'', pt (dict_get d ''date'')),
           (''text'', optional d ''text''),
           (''chat'', c),
           (''reply_to_message'', r),
           (''from_user'', u),
           (''forward_from'', ff),
           (''forward_from_message_id'', optional d ''forward_from_message_id''),
           (''forward_from_chat'', fc),
           (''edit_date'', pt (dict_get d ''edit_date'')),
           (''caption'', optional d ''caption''),
           (''document'', doc),
           (''video'', optional d ''video''),
           (''animation'', an),
           (''audio'', au),
           (''voice'', vo),
           (''photos'', PyList ps),
           (''contact'', con),
           (''location'', loc),
           (''sticker'', st),
           (''new_chat_members'', py_or (PyList ms) PyNone),
           (''left_chat_member'', lcm),
           (''invoice'', inv),
           (''successful_payment'', sp),
           (''bot'', client)]"
    by (simp add: set_bot_def)
  from mid b r' a' a(2) a(13) m_eq' show ?thesis by blast
qed

subsection \<open>When decoding succeeds\<close>

lemma before_reply_intro:
  assumes "BaleObject_from_dict client User (dict_get d ''from'') = Inr u"
    and "Chat_from_dict client (dict_get d ''chat'') = Inr c"
    and "BaleObject_from_dict client User (dict_get d ''forward_from'') = Inr ff"
    and "Chat_from_dict client (dict_get d ''forward_from_chat'') = Inr fc"
  shows "Message_fields_before_reply client pt d =
     Inr (dict_set (dict_set (dict_set (dict_set
              (AList.delete ''from'' (dict_set d ''date'' (pt (dict_get d ''date''))))
              ''from_user'' u) ''chat'' c) ''forward_from'' ff) ''forward_from_chat'' fc)"
  using assms
  by (simp add: Message_fields_before_reply_def dict_pop_default_def Let_def parse_field_def
      dict_lookup_simps dict_get_def [symmetric])

lemma after_reply_intro:
  assumes "py_iter (dict_get_default d ''photo'' (PyList [])) = Inr pps"
    and "map_r (BaleObject_from_dict client PhotoSize) pps = Inr ps"
    and "BaleObject_from_dict client Document (dict_get d ''document'') = Inr doc"
    and "BaleObject_from_dict client Audio (dict_get d ''audio'') = Inr au"
    and "BaleObject_from_dict client Voice (dict_get d ''voice'') = Inr vo"
    and "BaleObject_from_dict client Location (dict_get d ''location'') = Inr loc"
    and "BaleObject_from_dict client Contact (dict_get d ''contact'') = Inr con"
    and "BaleObject_from_dict client Animation (dict_get d ''animation'') = Inr an"
    and "BaleObject_from_dict client SuccessfulPayment (dict_get d ''successful_payment'') = Inr sp"
    and "BaleObject_from_dict client Sticker (dict_get d ''sticker'') = Inr st"
    and "BaleObject_from_dict client Invoice (dict_get d ''invoice'') = Inr ivc"
    and "py_iter (dict_get_default d ''new_chat_members'' (PyList [])) = Inr mps"
    and "map_r (BaleObject_from_dict client User) mps = Inr ms"
    and "BaleObject_from_dict client User (dict_get d ''left_chat_member'') = Inr lm"
  shows "Message_fields_after_reply client pt d =
     Inr (dict_set (dict_set (dict_set (dict_set (dict_set (dict_set (dict_set (dict_set
              (dict_set (dict_set (dict_set (dict_set
              (AList.delete ''photo''
                (dict_set (AList.delete ''edit_date'' d) ''edit_date'' (pt (dict_get d ''edit_date''))))
              ''photos'' (PyList ps)) ''document'' doc) ''audio'' au) ''voice'' vo)
              ''location'' loc) ''contact'' con) ''animation'' an) ''successful_payment'' sp)
              ''sticker'' st) ''invoice'' ivc)
              ''new_chat_members'' (py_or (PyList ms) PyNone)) ''left_chat_member'' lm)"
  using assms
  by (simp add: Message_fields_after_reply_def dict_pop_default_def Let_def parse_field_def
      dict_lookup_simps dict_get_def [symmetric])

text \<open>
  The converse of \<open>Message_from_dict_fields\<close>: a payload with a \<^verbatim>\<open>message_id\<close> whose nested
  payloads all decode is decoded, to the message with these fields.
\<close>

lemma Message_from_dict_intro:
  assumes d: "d \<noteq> []" and mid: "map_of d ''message_id'' = Some mid"
    and b: "BaleObject_from_dict client User (dict_get d ''from'') = Inr u"
       "Chat_from_dict client (dict_get d ''chat'') = Inr c"
       "BaleObject_from_dict client User (dict_get d ''forward_from'') = Inr ff"
       "Chat_from_dict client (dict_get d ''forward_from_chat'') = Inr fc"
    and r: "Message_from_dict client pt (dict_get d ''reply_to_message'') = Inr r"
    and a: "py_iter (dict_get_default d ''photo'' (PyList [])) = Inr pps"
       "map_r (BaleObject_from_dict client PhotoSize) pps = Inr ps"
       "BaleObject_from_dict client Document (dict_get d ''document'') = Inr doc"
       "BaleObject_from_dict client Audio (dict_get d ''audio'') = Inr au"
       "BaleObject_from_dict client Voice (dict_get d ''voice'') = Inr vo"
       "BaleObject_from_dict client Location (dict_get d ''location'') = Inr loc"
       "BaleObject_from_dict client Contact (dict_get d ''contact'') = Inr con"
       "BaleObject_from_dict client Animation (dict_get d ''animation'') = Inr an"
       "BaleObject_from_dict client SuccessfulPayment (dict_get d ''successful_payment'') = Inr sp"
       "BaleObject_from_dict client Sticker (dict_get d ''sticker'') = Inr st"
       "BaleObject_from_dict client Invoice (dict_get d ''invoice'') = Inr ivc"
       "py_iter (dict_get_default d ''new_chat_members'' (PyList [])) = Inr mps"
       "map_r (BaleObject_from_dict client User) mps = Inr ms"
       "BaleObject_from_dict client User (dict_get d ''left_chat_member'') = Inr lm"
  shows "Message_from_dict client pt (PyDict d) =
     Inr (PyObj Message
          [(''_id'', mid), (''_locked'', PyBool True),
           (''message_id'', mid),
           (''date'', pt (dict_get d ''date'')),
           (''text'', optional d ''text''),
           (''chat'', c),
           (''reply_to_message'', r),
           (''from_user'', u),
           (''forward_from'', ff),
           (''forward_from_message_id'', optional d ''forward_from_message_id''),
           (''forward_from_chat'', fc),
           (''edit_date'', pt (dict_get d ''edit_date'')),
           (''caption'', optional d ''caption''),
           (''document'', doc),
           (''video'', optional d ''video''),
           (''animation'', an),
           (''audio'', au),
           (''voice'', vo),
           (''photos'', PyList ps),
           (''contact'', con),
           (''location'', loc),
           (''sticker'', st),
           (''new_chat_members'', py_or (PyList ms) PyNone),
           (''left_chat_member'', lm),
           (''invoice'', ivc),
           (''successful_payment'', sp),
           (''bot'', client)])"
proof -
  define d1 where "d1 = dict_set (dict_set (dict_set (dict_set
              (AList.delete ''from'' (dict_set d ''date'' (pt (dict_get d ''date''))))
              ''from_user'' u) ''chat'' c) ''forward_from'' ff) ''forward_from_chat'' fc"
  have d1: "Message_fields_before_reply client pt d = Inr d1"
    unfolding d1_def by (rule before_reply_intro) fact+
  have r1: "Message_from_dict client pt (dict_get d1 ''reply_to_message'') = Inr r"
    by (simp add: d1_def dict_lookup_simps r)
  define e where "e = dict_set d1 ''reply_to_message'' r"
  have e_get: "dict_get e k = dict_get d k" "dict_get_default e k x = dict_get_default d k x"
    "optional e k = optional d k" "map_of e k = map_of d k"
    if "k \<notin> {''date'', ''from'', ''from_user'', ''chat'', ''forward_from'', ''forward_from_chat'',
                ''reply_to_message''}" for k x
    using that by (simp_all add: e_def d1_def dict_lookup_simps)
  have e_date: "map_of e ''date'' = Some (pt (dict_get d ''date''))"
    by (simp add: e_def d1_def dict_lookup_simps)
  have e_vals: "optional e ''chat'' = c" "optional e ''reply_to_message'' = r"
    "optional e ''from_user'' = u" "optional e ''forward_from'' = ff"
    "optional e ''forward_from_chat'' = fc"
    by (simp_all add: e_def d1_def dict_lookup_simps)
  define d2 where "d2 = dict_set (dict_set (dict_set (dict_set (dict_set (dict_set (dict_set (dict_set
              (dict_set (dict_set (dict_set (dict_set
              (AList.delete ''photo''
                (dict_set (AList.delete ''edit_date'' e) ''edit_date'' (pt (dict_get e ''edit_date''))))
              ''photos'' (PyList ps)) ''document'' doc) ''audio'' au) ''voice'' vo)
              ''location'' loc) ''contact'' con) ''animation'' an) ''successful_payment'' sp)
              ''sticker'' st) ''invoice'' ivc)
              ''new_chat_members'' (py_or (PyList ms) PyNone)) ''left_chat_member'' lm"
  have d2: "Message_fields_after_reply client pt e = Inr d2"
    unfolding d2_def
    by (rule after_reply_intro [where pps = pps and mps = mps]) (simp_all add: e_get a)
  have init: "Message_init d2 = Inr (PyObj Message
            [(''_id'', mid), (''_locked'', PyBool True),
             (''message_id'', mid),
             (''date'', pt (dict_get d ''date'')),
             (''text'', optional d ''text''),
             (''chat'', c),
             (''reply_to_message'', r),
             (''from_user'', u),
             (''forward_from'', ff),
             (''forward_from_message_id'', optional d ''forward_from_message_id''),
             (''forward_from_chat'', fc),
             (''edit_date'', pt (dict_get d ''edit_date'')),
             (''caption'', optional d ''caption''),
             (''document'', doc),
             (''video'', optional d ''video''),
             (''animation'', an),
             (''audio'', au),
             (''voice'', vo),
             (''photos'', PyList ps),
             (''contact'', con),
             (''location'', loc),
             (''sticker'', st),
             (''new_chat_members'', py_or (PyList ms) PyNone),
             (''left_chat_member'', lm),
             (''invoice'', ivc),
             (''successful_payment'', sp)])"
    by (simp add: Message_init_eq d2_def dict_lookup_simps e_get e_date e_vals mid)
  from d2 have d2': "Message_fields_after_reply client pt (dict_set d1 ''reply_to_message'' r) = Inr d2"
    by (simp add: e_def)
  show ?thesis
    by (simp add: Message_from_dict_dict [OF d] d1 r1 d2' init set_bot_def)
qed

subsection \<open>Payloads without optional fields\<close>


lemma Message_from_dict_bare:
  "Message_from_dict client pt (PyDict [(''message_id'', i), (''date'', t)]) =
     Inr (PyObj Message
          [(''_id'', i), (''_locked'', PyBool True),
           (''message_id'', i),
           (''date'', pt t),
           (''text'', MissingValue),
           (''chat'', PyNone),
           (''reply_to_message'', PyNone),
           (''from_user'', PyNone),
           (''forward_from'', PyNone),
           (''forward_from_message_id'', MissingValue),
           (''forward_from_chat'', PyNone),
           (''edit_date'', pt PyNone),
           (''caption'', MissingValue),
           (''document'', PyNone),
           (''video'', MissingValue),
           (''animation'', PyNone),
           (''audio'', PyNone),
           (''voice'', PyNone),
           (''photos'', PyList []),
           (''contact'', PyNone),
           (''location'', PyNone),
           (''sticker'', PyNone),
           (''new_chat_members'', PyNone),
           (''left_chat_member'', PyNone),
           (''invoice'', PyNone),
           (''successful_payment'', PyNone),
           (''bot'', client)])"
proof -
  let ?d = "[(''message_id'', i), (''date'', t)]"
  have "Message_from_dict client pt (PyDict ?d) =
     Inr (PyObj Message
            [(''_id'', i), (''_locked'', PyBool True),
             (''message_id'', i),
             (''date'', pt (dict_get ?d ''date'')),
             (''text'', optional ?d ''text''),
             (''chat'', PyNone),
             (''reply_to_message'', PyNone),
             (''from_user'', PyNone),
             (''forward_from'', PyNone),
             (''forward_from_message_id'', optional ?d ''forward_from_message_id''),
             (''forward_from_chat'', PyNone),
             (''edit_date'', pt (dict_get ?d ''edit_date'')),
             (''caption'', optional ?d ''caption''),
             (''document'', PyNone),
             (''video'', optional ?d ''video''),
             (''animation'', PyNone),
             (''audio'', PyNone),
             (''voice'', PyNone),
             (''photos'', PyList []),
             (''contact'', PyNone),
             (''location'', PyNone),
             (''sticker'', PyNone),
             (''new_chat_members'', py_or (PyList []) PyNone),
             (''left_chat_member'', PyNone),
             (''invoice'', PyNone),
             (''successful_payment'', PyNone),
             (''bot'', client)])"
    by (rule Message_from_dict_intro [where pps = "[]" and mps = "[]"])
       (simp_all add: dict_get_def dict_get_default_def py_iter_def)
  then show ?thesis
    by (simp add: dict_get_def dict_get_default_def optional_def py_or_def)
qed

section \<open>What a decoded message holds\<close>

lemma absent_key:
  assumes "map_of d k = None"
  shows "dict_get d k = PyNone" and "dict_get_default d k x = x" and "optional d k = MissingValue"
  using assms by (simp_all add: dict_get_def dict_get_default_def optional_def)

lemma map_r_length: "map_r f xs = Inr ys \<Longrightarrow> length ys = length xs"
  by (induction xs arbitrary: ys) (auto simp: bind_r_Inr_iff)

lemma py_or_list: "py_or (PyList xs) PyNone = (if xs = [] then PyNone else PyList xs)"
  by (simp add: py_or_def)






section \<open>What a decoded chat holds\<close>




section \<open>The lists of a decoded message\<close>

lemma Message_list_fields:
  assumes m: "Message_from_dict client pt (PyDict d) = Inr m" and d: "d \<noteq> []"
  shows "\<exists>pps ps mps ms.
       py_iter (dict_get_default d ''photo'' (PyList [])) = Inr pps
     \<and> map_r (BaleObject_from_dict client PhotoSize) pps = Inr ps
     \<and> py_getattr m ''photos'' = Inr (PyList ps)
     \<and> py_iter (dict_get_default d ''new_chat_members'' (PyList [])) = Inr mps
     \<and> map_r (BaleObject_from_dict client User) mps = Inr ms
     \<and> py_getattr m ''new_chat_members'' = Inr (if ms = [] then PyNone else PyList ms)"
proof -
  from Message_from_dict_fields [OF m d] obtain mid u c ff fc r pps ps doc au vo loc con an sp st ivc mps ms lm where
    f: "map_of d ''message_id'' = Some mid"
      "BaleObject_from_dict client User (dict_get d ''from'') = Inr u"
      "Chat_from_dict client (dict_get d ''chat'') = Inr c"
      "BaleObject_from_dict client User (dict_get d ''forward_from'') = Inr ff"
      "Chat_from_dict client (dict_get d ''forward_from_chat'') = Inr fc"
      "Message_from_dict client pt (dict_get d ''reply_to_message'') = Inr r"
      "py_iter (dict_get_default d ''photo'' (PyList [])) = Inr pps"
      "map_r (BaleObject_from_dict client PhotoSize) pps = Inr ps"
      "BaleObject_from_dict client Document (dict_get d ''document'') = Inr doc"
      "BaleObject_from_dict client Audio (dict_get d ''audio'') = Inr au"
      "BaleObject_from_dict client Voice (dict_get d ''voice'') = Inr vo"
      "BaleObject_from_dict client Location (dict_get d ''location'') = Inr loc"
      "BaleObject_from_dict client Contact (dict_get d ''contact'') = Inr con"
      "BaleObject_from_dict client Animation (dict_get d ''animation'') = Inr an"
      "BaleObject_from_dict client SuccessfulPayment (dict_get d ''successful_payment'') = Inr sp"
      "BaleObject_from_dict client Sticker (dict_get d ''sticker'') = Inr st"
      "BaleObject_from_dict client Invoice (dict_get d ''invoice'') = Inr ivc"
      "py_iter (dict_get_default d ''new_chat_members'' (PyList [])) = Inr mps"
      "map_r (BaleObject_from_dict client User) mps = Inr ms"
      "BaleObject_from_dict client User (dict_get d ''left_chat_member'') = Inr lm"
    and m_eq: "m = PyObj Message
            [(''_id'', mid), (''_locked'', PyBool True),
             (''message_id'', mid),
             (''date'', pt (dict_get d ''date'')),
             (''text'', optional d ''text''),
             (''chat'', c),
             (''reply_to_message'', r),
             (''from_user'', u),
             (''forward_from'', ff),
             (''forward_from_message_id'', optional d ''forward_from_message_id''),
             (''forward_from_chat'', fc),
             (''edit_date'', pt (dict_get d ''edit_date'')),
             (''caption'', optional d ''caption''),
             (''document'', doc),
             (''video'', optional d ''video''),
             (''animation'', an),
             (''audio'', au),
             (''voice'', vo),
             (''photos'', PyList ps),
             (''contact'', con),
             (''location'', loc),
             (''sticker'', st),
             (''new_chat_members'', py_or (PyList ms) PyNone),
             (''left_chat_member'', lm),
             (''invoice'', ivc),
             (''successful_payment'', sp),
             (''bot'', client)]"
    by blast
  from f(7,8,18,19) show ?thesis
    by (simp add: m_eq py_getattr_def py_or_list)
qed

section \<open>Payloads without nested entities\<close>

text \<open>
  A payload that has a \<^verbatim>\<open>message_id\<close>, no nested entity and no item in its lists is
  decoded, whatever else it holds.
\<close>

lemma Message_from_dict_flat:
  assumes mid: "map_of d ''message_id'' = Some mid"
    and ent: "\<forall>k \<in> set (map fst Message_entity_fields). dict_get d k = PyNone"
    and ph: "dict_get_default d ''photo'' (PyList []) = PyList []"
    and ncm: "dict_get_default d ''new_chat_members'' (PyList []) = PyList []"
  shows "Message_from_dict client pt (PyDict d) =
     Inr (PyObj Message
          [(''_id'', mid), (''_locked'', PyBool True),
           (''message_id'', mid),
           (''date'', pt (dict_get d ''date'')),
           (''text'', optional d ''text''),
           (''chat'', PyNone),
           (''reply_to_message'', PyNone),
           (''from_user'', PyNone),
           (''forward_from'', PyNone),
           (''forward_from_message_id'', optional d ''forward_from_message_id''),
           (''forward_from_chat'', PyNone),
           (''edit_date'', pt (dict_get d ''edit_date'')),
           (''caption'', optional d ''caption''),
           (''document'', PyNone),
           (''video'', optional d ''video''),
           (''animation'', PyNone),
           (''audio'', PyNone),
           (''voice'', PyNone),
           (''photos'', PyList []),
           (''contact'', PyNone),
           (''location'', PyNone),
           (''sticker'', PyNone),
           (''new_chat_members'', PyNone),
           (''left_chat_member'', PyNone),
           (''invoice'', PyNone),
           (''successful_payment'', PyNone),
           (''bot'', client)])"
proof -
  from mid have d: "d \<noteq> []"
    by auto
  have "Message_from_dict client pt (PyDict d) =
     Inr (PyObj Message
            [(''_id'', mid), (''_locked'', PyBool True),
             (''message_id'', mid),
             (''date'', pt (dict_get d ''date'')),
             (''text'', optional d ''text''),
             (''chat'', PyNone),
             (''reply_to_message'', PyNone),
             (''from_user'', PyNone),
             (''forward_from'', PyNone),
             (''forward_from_message_id'', optional d ''forward_from_message_id''),
             (''forward_from_chat'', PyNone),
             (''edit_date'', pt (dict_get d ''edit_date'')),
             (''caption'', optional d ''caption''),
             (''document'', PyNone),
             (''video'', optional d ''video''),
             (''animation'', PyNone),
             (''audio'', PyNone),
             (''voice'', PyNone),
             (''photos'', PyList []),
             (''contact'', PyNone),
             (''location'', PyNone),
             (''sticker'', PyNone),
             (''new_chat_members'', py_or (PyList []) PyNone),
             (''left_chat_member'', PyNone),
             (''invoice'', PyNone),
             (''successful_payment'', PyNone),
             (''bot'', client)])"
    using ent
    by (intro Message_from_dict_intro [OF d mid, where pps = "[]" and mps = "[]"])
       (simp_all add: Message_entity_fields_def ph ncm py_iter_def)
  then show ?thesis
    by (simp add: py_or_def)
qed

section \<open>Nesting of replies\<close>




section \<open>Absent optional fields\<close>




section \<open>List-valued fields\<close>

text \<open>
  Claim C3, as amended. For every payload that \<^verbatim>\<open>Message.from_dict\<close> decodes to a message,
  the two lists are read with the empty list as the default for an absent key.
  \<^verbatim>\<open>photos\<close> is the list of the decoded items of \<^verbatim>\<open>photo\<close>, one for each: it is the empty
  list, never \<^verbatim>\<open>None\<close>, when there is no item. \<^verbatim>\<open>new_chat_members\<close> is \<^verbatim>\<open>None\<close> when the list of
  the decoded items is empty, and that list otherwise. So an empty list becomes
  \<^verbatim>\<open>None\<close> for \<^verbatim>\<open>new_chat_members\<close> only.
\<close>

theorem list_fields_of_message:
  assumes "Message_from_dict client pt (PyDict d) = Inr m" and "d \<noteq> []"
  shows "\<exists>pps ps mps ms.
       py_iter (dict_get_default d ''photo'' (PyList [])) = Inr pps
     \<and> map_r (BaleObject_from_dict client PhotoSize) pps = Inr ps
     \<and> length ps = length pps
     \<and> py_getattr m ''photos'' = Inr (PyList ps)
     \<and> py_getattr m ''photos'' \<noteq> Inr PyNone
     \<and> py_iter (dict_get_default d ''new_chat_members'' (PyList [])) = Inr mps
     \<and> map_r (BaleObject_from_dict client User) mps = Inr ms
     \<and> length ms = length mps
     \<and> py_getattr m ''new_chat_members'' = Inr (if ms = [] then PyNone else PyList ms)
     \<and> (map_of d ''photo'' = None \<longrightarrow> pps = [])
     \<and> (map_of d ''new_chat_members'' = None \<longrightarrow> mps = [])"
proof -
  from Message_list_fields [OF assms] obtain pps ps mps ms where
    f: "py_iter (dict_get_default d ''photo'' (PyList [])) = Inr pps"
       "map_r (BaleObject_from_dict client PhotoSize) pps = Inr ps"
       "py_getattr m ''photos'' = Inr (PyList ps)"
       "py_iter (dict_get_default d ''new_chat_members'' (PyList [])) = Inr mps"
       "map_r (BaleObject_from_dict client User) mps = Inr ms"
       "py_getattr m ''new_chat_members'' = Inr (if ms = [] then PyNone else PyList ms)"
    by blast
  from f(1) have p: "map_of d ''photo'' = None \<longrightarrow> pps = []"
    by (auto simp: absent_key py_iter_def)
  from f(4) have n: "map_of d ''new_chat_members'' = None \<longrightarrow> mps = []"
    by (auto simp: absent_key py_iter_def)
  from f(3) have "py_getattr m ''photos'' \<noteq> Inr PyNone"
    by simp
  with f p n map_r_length [OF f(2)] map_r_length [OF f(5)] show ?thesis
    by (intro exI [where x = pps] exI [where x = ps] exI [where x = mps] exI [where x = ms])
       simp
qed

theorem list_fields_of_message_witness:
  "\<exists>m.
     Message_from_dict (PyObj Bot []) parse_time
       (PyDict [(''message_id'', PyInt 1), (''date'', PyInt 0),
                (''photo'', PyList [PyDict [(''file_id'', PyStr ''f'')]]),
                (''new_chat_members'', PyList [])]) = Inr m
     \<and> py_getattr m ''photos'' = Inr (PyList [PyObj PhotoSize [(''_id'', PyNone), (''_locked'', PyBool True), (''file_id'', PyStr ''f''), (''bot'', PyObj Bot [])]])
     \<and> py_getattr m ''new_chat_members'' = Inr PyNone"
proof -
  let ?d = "[(''message_id'', PyInt 1), (''date'', PyInt 0),
             (''photo'', PyList [PyDict [(''file_id'', PyStr ''f'')]]),
             (''new_chat_members'', PyList [])]"
  have photo: "BaleObject_from_dict (PyObj Bot []) PhotoSize (PyDict [(''file_id'', PyStr ''f'')]) =
     Inr (PyObj PhotoSize [(''_id'', PyNone), (''_locked'', PyBool True), (''file_id'', PyStr ''f''), (''bot'', PyObj Bot [])])"
    by (simp add: BaleObject_from_dict_def parse_data_def Entity_init_def BaleObject_init_def
        py_setattr_def is_locked_def py_lock_def set_bot_def)
  have "\<exists>m. Message_from_dict (PyObj Bot []) parse_time (PyDict ?d) = Inr m"
    by (rule exI, rule Message_from_dict_intro [where mid = "PyInt 1"
          and u = PyNone and c = PyNone and ff = PyNone and fc = PyNone and r = PyNone
          and pps = "[PyDict [(''file_id'', PyStr ''f'')]]"
          and ps = "[PyObj PhotoSize [(''_id'', PyNone), (''_locked'', PyBool True), (''file_id'', PyStr ''f''), (''bot'', PyObj Bot [])]]"
          and doc = PyNone and au = PyNone and vo = PyNone and loc = PyNone and con = PyNone
          and an = PyNone and sp = PyNone and st = PyNone and ivc = PyNone
          and mps = "[]" and ms = "[]" and lm = PyNone])
       (simp_all add: dict_get_def dict_get_default_def py_iter_def photo)
  then obtain m where m: "Message_from_dict (PyObj Bot []) parse_time (PyDict ?d) = Inr m"
    by blast
  have ne: "?d \<noteq> []"
    by simp
  from list_fields_of_message [OF m ne] obtain pps ps mps ms where
    f: "py_iter (dict_get_default ?d ''photo'' (PyList [])) = Inr pps"
       "map_r (BaleObject_from_dict (PyObj Bot []) PhotoSize) pps = Inr ps"
       "py_getattr m ''photos'' = Inr (PyList ps)"
       "py_iter (dict_get_default ?d ''new_chat_members'' (PyList [])) = Inr mps"
       "map_r (BaleObject_from_dict (PyObj Bot []) User) mps = Inr ms"
       "py_getattr m ''new_chat_members'' = Inr (if ms = [] then PyNone else PyList ms)"
    by blast
  from f(1) have "pps = [PyDict [(''file_id'', PyStr ''f'')]]"
    by (simp add: dict_get_default_def py_iter_def)
  with f(2) have ps: "ps = [PyObj PhotoSize [(''_id'', PyNone), (''_locked'', PyBool True), (''file_id'', PyStr ''f''), (''bot'', PyObj Bot [])]]"
    by (simp add: photo)
  from f(4) have "mps = []"
    by (simp add: dict_get_default_def py_iter_def)
  with f(5) have "ms = []"
    by simp
  with f(3,6) ps m show ?thesis
    by simp
qed

text \<open>
  The claim as it stands fails for \<^verbatim>\<open>photos\<close>: a payload with an empty \<^verbatim>\<open>photo\<close> list and an
  empty \<^verbatim>\<open>new_chat_members\<close> list is decoded to a message whose \<^verbatim>\<open>new_chat_members\<close> is
  \<^verbatim>\<open>None\<close> and whose \<^verbatim>\<open>photos\<close> is the empty list, not \<^verbatim>\<open>None\<close>; so is a payload without the
  two keys.
\<close>

theorem empty_photos_is_empty_list:
  "\<exists>m m'.
     Message_from_dict (PyObj Bot []) parse_time
       (PyDict [(''message_id'', PyInt 1), (''date'', PyInt 0), (''photo'', PyList []),
                (''new_chat_members'', PyList [])]) = Inr m
     \<and> py_getattr m ''new_chat_members'' = Inr PyNone
     \<and> py_getattr m ''photos'' = Inr (PyList [])
     \<and> py_getattr m ''photos'' \<noteq> Inr PyNone
     \<and> Message_from_dict (PyObj Bot []) parse_time
         (PyDict [(''message_id'', PyInt 1), (''date'', PyInt 0)]) = Inr m'
     \<and> py_getattr m' ''new_chat_members'' = Inr PyNone
     \<and> py_getattr m' ''photos'' = Inr (PyList [])
     \<and> py_getattr m' ''photos'' \<noteq> Inr PyNone"
proof -
  let ?d = "[(''message_id'', PyInt 1), (''date'', PyInt 0), (''photo'', PyList []),
             (''new_chat_members'', PyList [])]"
  have "Message_from_dict (PyObj Bot []) parse_time (PyDict ?d) =
     Inr (PyObj Message
            [(''_id'', PyInt 1), (''_locked'', PyBool True),
             (''message_id'', PyInt 1),
             (''date'', parse_time (dict_get ?d ''date'')),
             (''text'', optional ?d ''text''),
             (''chat'', PyNone),
             (''reply_to_message'', PyNone),
             (''from_user'', PyNone),
             (''forward_from'', PyNone),
             (''forward_from_message_id'', optional ?d ''forward_from_message_id''),
             (''forward_from_chat'', PyNone),
             (''edit_date'', parse_time (dict_get ?d ''edit_date'')),
             (''caption'', optional ?d ''caption''),
             (''document'', PyNone),
             (''video'', optional ?d ''video''),
             (''animation'', PyNone),
             (''audio'', PyNone),
             (''voice'', PyNone),
             (''photos'', PyList []),
             (''contact'', PyNone),
             (''location'', PyNone),
             (''sticker'', PyNone),
             (''new_chat_members'', PyNone),
             (''left_chat_member'', PyNone),
             (''invoice'', PyNone),
             (''successful_payment'', PyNone),
             (''bot'', PyObj Bot [])])"
    by (rule Message_from_dict_flat)
       (simp_all add: Message_entity_fields_def dict_get_def dict_get_default_def)
  then show ?thesis
    by (simp add: py_getattr_def Message_from_dict_bare)
qed

end
